theory Spec2Isabelle
  imports Complex_Main "HOL-Library.Log_Nat"
begin

unbundle bit_operations_syntax

section \<open>Enumerations of zketech.py\<close>

text \<open>
  Python's unbounded integers are \<^typ>\<open>int\<close>; a \<open>bytes\<close> object is an \<^typ>\<open>int list\<close>
  whose elements lie in 0..255. A Python float is a finite double, represented by the
  rational number (\<^typ>\<open>rat\<close>) it denotes; the arithmetic of the command
  layer and of the safety watcher on floats rounds each exact result to the nearest
  double (section Floats), and the two quotients by 1000 of a decoded response are kept
  as the exact rationals. An exception is a value of the type \<open>error\<close>.
  Several enumerations of the source share member names, so every constructor carries
  the initials of its class.
\<close>

datatype error =
  ValueError | TypeError | AttributeError | StructError | ZeroDivisionError
  | OverflowError | NotImplementedError | PortNotOpenError

datatype DeviceState =
  DS_disconnected | DS_idle | DS_monitoring | DS_testing | DS_ending

datatype ProgState =
  PS_d_cc | PS_d_cp | PS_c_nimh | PS_c_nicd | PS_c_liion | PS_c_life | PS_c_vrla | PS_c_cv

definition BEGIN_MARKER :: int where
  "BEGIN_MARKER = 250"

definition END_MARKER :: int where
  "END_MARKER = 248"

text \<open>
  In the source \<open>conti_c_cv\<close> has the value of \<open>start_c_cv\<close> (0b01111000), so Python's
  Enum makes it an alias of \<open>start_c_cv\<close> and not a member of its own.
\<close>

datatype ReqCode =
  stop_device | stop_test | start_device | mes_resistance | update_test | calibrate
  | start_d_cc | start_d_cp | start_c_nimh | start_c_nicd | start_c_liion | start_c_life
  | start_c_vrla | start_c_cv
  | conti_d_cc | conti_d_cp | conti_c_nimh | conti_c_nicd | conti_c_liion | conti_c_life
  | conti_c_vrla

fun ReqCode_value :: "ReqCode \<Rightarrow> int" where
  "ReqCode_value stop_device = 6"
| "ReqCode_value stop_test = 2"
| "ReqCode_value start_device = 5"
| "ReqCode_value mes_resistance = 9"
| "ReqCode_value update_test = 7"
| "ReqCode_value calibrate = 4"
| "ReqCode_value start_d_cc = 1"
| "ReqCode_value start_d_cp = 17"
| "ReqCode_value start_c_nimh = 33"
| "ReqCode_value start_c_nicd = 49"
| "ReqCode_value start_c_liion = 65"
| "ReqCode_value start_c_life = 81"
| "ReqCode_value start_c_vrla = 97"
| "ReqCode_value start_c_cv = 120"
| "ReqCode_value conti_d_cc = 8"
| "ReqCode_value conti_d_cp = 24"
| "ReqCode_value conti_c_nimh = 40"
| "ReqCode_value conti_c_nicd = 56"
| "ReqCode_value conti_c_liion = 72"
| "ReqCode_value conti_c_life = 88"
| "ReqCode_value conti_c_vrla = 104"

text \<open>\<open>ReqCode(v)\<close>: the member of value \<open>v\<close>; \<open>None\<close> where Python raises ValueError.\<close>

definition ReqCode_of :: "int \<Rightarrow> ReqCode option" where
  "ReqCode_of v = map_of
     [(6, stop_device), (2, stop_test), (5, start_device), (9, mes_resistance),
      (7, update_test), (4, calibrate), (1, start_d_cc), (17, start_d_cp),
      (33, start_c_nimh), (49, start_c_nicd), (65, start_c_liion), (81, start_c_life),
      (97, start_c_vrla), (120, start_c_cv), (8, conti_d_cc), (24, conti_d_cp),
      (40, conti_c_nimh), (56, conti_c_nicd), (72, conti_c_liion), (88, conti_c_life),
      (104, conti_c_vrla)] v"

datatype StateCode = SC_init | SC_ended | SC_testing | SC_ending

definition StateCode_of :: "int \<Rightarrow> StateCode option" where
  "StateCode_of v = map_of [(10, SC_init), (0, SC_ended), (1, SC_testing), (2, SC_ending)] v"

datatype ProgCode =
  PC_d_cc | PC_d_cp | PC_c_nimh | PC_c_nicd | PC_c_liion | PC_c_life | PC_c_vrla | PC_c_cv

definition ProgCode_of :: "int \<Rightarrow> ProgCode option" where
  "ProgCode_of v = map_of
     [(0, PC_d_cc), (1, PC_d_cp), (2, PC_c_nimh), (3, PC_c_nicd), (4, PC_c_liion),
      (5, PC_c_life), (6, PC_c_vrla), (7, PC_c_cv)] v"

fun ProgCode_value :: "ProgCode \<Rightarrow> int" where
  "ProgCode_value PC_d_cc = 0"
| "ProgCode_value PC_d_cp = 1"
| "ProgCode_value PC_c_nimh = 2"
| "ProgCode_value PC_c_nicd = 3"
| "ProgCode_value PC_c_liion = 4"
| "ProgCode_value PC_c_life = 5"
| "ProgCode_value PC_c_vrla = 6"
| "ProgCode_value PC_c_cv = 7"

definition ProgState_of :: "int \<Rightarrow> ProgState option" where
  "ProgState_of v = map_of
     [(0, PS_d_cc), (1, PS_d_cp), (2, PS_c_nimh), (3, PS_c_nicd), (4, PS_c_liion),
      (5, PS_c_life), (6, PS_c_vrla), (7, PS_c_cv)] v"

datatype PartNumber =
  ebc_a | ebc_ah | ebc_b | ebc_bh | ebc_a05 | ebc_a10h | ebc_a10 | ebc_b10 | ebc_a20
  | ebc_a40l | ebd_a | ebd_ah | ebd_b | ebd_bh | ebd_a10 | ebd_a15 | ebd_a2s | ebd_a5s
  | ebd_a20h

definition PartNumber_of :: "int \<Rightarrow> PartNumber option" where
  "PartNumber_of v = map_of
     [(1, ebc_a), (2, ebc_ah), (3, ebc_b), (4, ebc_bh), (5, ebc_a05), (6, ebc_a10h),
      (7, ebc_a10), (8, ebc_b10), (9, ebc_a20), (10, ebc_a40l), (11, ebd_a),
      (12, ebd_ah), (13, ebd_b), (14, ebd_bh), (15, ebd_a10), (16, ebd_a15),
      (17, ebd_a2s), (18, ebd_a5s), (19, ebd_a20h)] v"

section \<open>Checksum and frame validity\<close>

text \<open>
  \<open>reduce(xor, buff) % 240\<close>. \<open>reduce\<close> without an initial value raises TypeError on an
  empty sequence.
\<close>

definition zketech_checksum :: "int list \<Rightarrow> error + int" where
  "zketech_checksum buff =
     (case buff of [] \<Rightarrow> Inl TypeError | b # bs \<Rightarrow> Inr (foldl (XOR) b bs mod 240))"

text \<open>
  \<open>check_buffer_validity\<close> logs one warning, naming the check that failed, before it returns
  False. \<open>buffer_defect\<close> is that warning, the checks in the order of the source;
  \<open>payload buff\<close> is the slice \<open>buff[1:-2]\<close>, and the negative indices \<open>-1\<close>, \<open>-2\<close>, \<open>-3\<close>
  are written out from the length, which is 10 or 19 where they are read.
\<close>

datatype defect =
  Bad_length | Bad_begin_marker | Bad_end_marker | Bad_checksum
  | Unknown_ReqCode | Unknown_StateCode | Unknown_ProgCode | Unknown_PartNumber

definition payload :: "int list \<Rightarrow> int list" where
  "payload buff = take (length buff - 3) (drop 1 buff)"

definition buffer_defect :: "int list \<Rightarrow> defect option" where
  "buffer_defect buff =
     (let n = length buff in
      if \<not> (n = 10 \<or> n = 19) then Some Bad_length
      else if \<not> buff ! 0 = BEGIN_MARKER then Some Bad_begin_marker
      else if \<not> buff ! (n - 1) = END_MARKER then Some Bad_end_marker
      else if \<not> Inr (buff ! (n - 2)) = zketech_checksum (payload buff) then Some Bad_checksum
      else if n = 10 \<and> ReqCode_of (buff ! 1) = None then Some Unknown_ReqCode
      else if n = 19 \<and> StateCode_of (buff ! 1 div 10) = None then Some Unknown_StateCode
      else if n = 19 \<and> ProgCode_of (buff ! 1 mod 10) = None then Some Unknown_ProgCode
      else if n = 19 \<and> PartNumber_of (buff ! (n - 3)) = None then Some Unknown_PartNumber
      else None)"

definition check_buffer_validity :: "int list \<Rightarrow> bool" where
  "check_buffer_validity buff = (buffer_defect buff = None)"

section \<open>Request frames\<close>

record RequestDataSet =
  rq_begin_marker :: int
  rq_req_code :: ReqCode
  rq_req_code_val :: int
  rq_p1 :: int
  rq_p1_h :: int
  rq_p1_l :: int
  rq_p2 :: int
  rq_p2_h :: int
  rq_p2_l :: int
  rq_p3 :: int
  rq_p3_h :: int
  rq_p3_l :: int
  rq_checksum :: int
  rq_end_marker :: int

definition RequestDataSet_init :: "ReqCode \<Rightarrow> int \<Rightarrow> int \<Rightarrow> int \<Rightarrow> error + RequestDataSet" where
  "RequestDataSet_init req_code p1 p2 p3 =
     (if p1 < 0 \<or> p2 < 0 \<or> p3 < 0 then Inl ValueError
      else if p1 > 57600 \<or> p2 > 57600 \<or> p3 > 57600 then Inl ValueError
      else
        case zketech_checksum
               [ReqCode_value req_code, p1 div 240, p1 mod 240, p2 div 240, p2 mod 240,
                p3 div 240, p3 mod 240] of
          Inl e \<Rightarrow> Inl e
        | Inr ck \<Rightarrow>
            Inr \<lparr>rq_begin_marker = BEGIN_MARKER, rq_req_code = req_code,
                 rq_req_code_val = ReqCode_value req_code,
                 rq_p1 = p1, rq_p1_h = p1 div 240, rq_p1_l = p1 mod 240,
                 rq_p2 = p2, rq_p2_h = p2 div 240, rq_p2_l = p2 mod 240,
                 rq_p3 = p3, rq_p3_h = p3 div 240, rq_p3_l = p3 mod 240,
                 rq_checksum = ck, rq_end_marker = END_MARKER\<rparr>)"

text \<open>\<open>struct.pack("<" + "B" * n, *values)\<close>: struct.error unless every value is in 0..255.\<close>

definition struct_pack_B :: "int list \<Rightarrow> error + int list" where
  "struct_pack_B values =
     (if list_all (\<lambda>v. 0 \<le> v \<and> v \<le> 255) values then Inr values else Inl StructError)"

text \<open>\<open>RequestFrame.get_buffer\<close>; the empty list is \<open>b''\<close>.\<close>

definition get_buffer :: "RequestDataSet \<Rightarrow> error + int list" where
  "get_buffer data =
     (case struct_pack_B
             [rq_begin_marker data, ReqCode_value (rq_req_code data),
              rq_p1_h data, rq_p1_l data, rq_p2_h data, rq_p2_l data,
              rq_p3_h data, rq_p3_l data, rq_checksum data, rq_end_marker data] of
        Inl e \<Rightarrow> Inl e
      | Inr buff \<Rightarrow> if \<not> check_buffer_validity buff then Inr [] else Inr buff)"

section \<open>Response frames\<close>

record ResponseDataSet =
  rs_state_code :: StateCode
  rs_prog_code :: ProgCode
  rs_i :: rat
  rs_u :: rat
  rs_c :: int
  rs_unknown :: int
  rs_p1 :: int
  rs_p2 :: int
  rs_p3 :: int
  rs_part_number :: PartNumber
  rs_checksum :: int

definition ResponseDataSet_init ::
  "int \<Rightarrow> int \<Rightarrow> int \<Rightarrow> int \<Rightarrow> int \<Rightarrow> int \<Rightarrow> int \<Rightarrow> int \<Rightarrow> int \<Rightarrow> int \<Rightarrow> int \<Rightarrow> int \<Rightarrow> int \<Rightarrow> int \<Rightarrow>
   int \<Rightarrow> int \<Rightarrow> int \<Rightarrow> int \<Rightarrow> int \<Rightarrow> error + ResponseDataSet" where
  "ResponseDataSet_init begin_marker res_code_val i_h i_l u_h u_l c_h c_l unknown_h unknown_l
       p1_h p1_l p2_h p2_l p3_h p3_l part_number_val checksum end_marker =
     (case StateCode_of (res_code_val div 10) of
        None \<Rightarrow> Inl ValueError
      | Some sc \<Rightarrow>
     (case ProgCode_of (res_code_val mod 10) of
        None \<Rightarrow> Inl ValueError
      | Some pc \<Rightarrow>
     (case PartNumber_of part_number_val of
        None \<Rightarrow> Inl ValueError
      | Some pn \<Rightarrow>
          Inr \<lparr>rs_state_code = sc, rs_prog_code = pc,
               rs_i = of_int (i_h * 240 + i_l) / 1000,
               rs_u = of_int (u_h * 240 + u_l) / 1000,
               rs_c = c_h * 240 + c_l,
               rs_unknown = unknown_h * 240 + unknown_l,
               rs_p1 = p1_h * 240 + p1_l,
               rs_p2 = p2_h * 240 + p2_l,
               rs_p3 = p3_h * 240 + p3_l,
               rs_part_number = pn, rs_checksum = checksum\<rparr>)))"

text \<open>
  \<open>ResponseFrame.get_response_data_set\<close>. \<open>struct.unpack("<" + "B" * 19, buff)\<close> raises
  struct.error unless \<open>buff\<close> has 19 bytes; the 19 values go to the constructor in the
  order of \<open>labels\<close>. The result \<open>None\<close> is Python's \<open>None\<close>.
\<close>

definition get_response_data_set :: "int list \<Rightarrow> error + ResponseDataSet option" where
  "get_response_data_set buff =
     (if \<not> check_buffer_validity buff then Inr None
      else if \<not> length buff = 19 then Inl StructError
      else
        case ResponseDataSet_init (buff ! 0) (buff ! 1) (buff ! 2) (buff ! 3) (buff ! 4)
               (buff ! 5) (buff ! 6) (buff ! 7) (buff ! 8) (buff ! 9) (buff ! 10) (buff ! 11)
               (buff ! 12) (buff ! 13) (buff ! 14) (buff ! 15) (buff ! 16) (buff ! 17)
               (buff ! 18) of
          Inl e \<Rightarrow> Inl e
        | Inr data \<Rightarrow> Inr (Some data))"

section \<open>Floats\<close>

text \<open>
  Python's float is the IEEE 754 double: 53 significant bits, exponents down to the
  subnormal step \<open>2 ^ -1074\<close>, results rounded to the nearest double, ties to the even
  significand. \<open>rne\<close> rounds a rational to the nearest integer, ties to even; \<open>expo x\<close>
  is the exponent \<open>e\<close> with \<open>2 ^ e \<le> x < 2 ^ (e + 1)\<close> of a positive \<open>x\<close>, found from the
  bit lengths of its numerator and denominator; \<open>fl x\<close> is the double nearest to \<open>x\<close>.
  A float literal of the source or of a user, such as \<open>4.02\<close>, is \<open>fl (402 / 100)\<close>, and
  \<open>a * b\<close>, \<open>a / b\<close>, \<open>a + b\<close> on floats are \<open>fl\<close> of the exact result. A result whose
  magnitude reaches \<open>2 ^ 1024\<close> stands for Python's infinity, which the operations of
  the source only ever hand to \<open>int\<close>. The not-a-number and the infinities as inputs
  are outside the model.
\<close>

definition rne :: "rat \<Rightarrow> int" where
  "rne y =
     (let f = \<lfloor>y\<rfloor>; d = y - of_int f
      in if d < 1 / 2 then f else if 1 / 2 < d then f + 1 else if even f then f else f + 1)"

definition expo :: "rat \<Rightarrow> int" where
  "expo x =
     (case quotient_of x of
        (a, b) \<Rightarrow> let e0 = bitlen a - bitlen b in if 2 powi e0 \<le> x then e0 else e0 - 1)"

definition fl :: "rat \<Rightarrow> rat" where
  "fl x =
     (if x = 0 then 0
      else let q = max (expo \<bar>x\<bar> - 52) (- 1074)
           in sgn x * of_int (rne (\<bar>x\<bar> / 2 powi q)) * 2 powi q)"

definition is_double :: "rat \<Rightarrow> bool" where
  "is_double x = (fl x = x \<and> \<bar>x\<bar> < 2 ^ 1024)"

text \<open>\<open>int(x)\<close> of a float: truncation towards zero.\<close>

definition py_int :: "rat \<Rightarrow> int" where
  "py_int x = (if x < 0 then \<lceil>x\<rceil> else \<lfloor>x\<rfloor>)"

text \<open>\<open>int(x)\<close> of the result of a float operation: OverflowError on an infinity.\<close>

definition float_int :: "rat \<Rightarrow> error + int" where
  "float_int x = (if 2 ^ 1024 \<le> \<bar>x\<bar> then Inl OverflowError else Inr (py_int x))"

section \<open>The session: class Zketech\<close>

text \<open>
  The serial transport is outside the program. The session record keeps what the methods
  read and write of it: whether the port is open (\<open>isOpen()\<close>), and the buffers handed to
  \<open>write\<close>, oldest first. The bytes that \<open>self.read(size=19)\<close> returns are an argument of
  \<open>read_response\<close> (at most 19 bytes; \<open>in_waiting\<close> and the discarding of a backlog only
  decide which bytes these are). The calls of the module's logger made in the methods of
  the class are the records appended to \<open>logged\<close>; the attribute \<open>battery_type\<close>, which is
  only ever set to \<open>None\<close> and never read, is left out.
\<close>

datatype log_record =
  Warning_wrong_state
  | Debug_sending_request ReqCode int int int
  | Debug_sent_request
  | Debug_sent_buffer "int list"
  | Debug_read_disconnected
  | Debug_read_idled
  | Debug_buffer_invalid
  | Debug_received_response
  | Debug_received_buffer "int list"
  | Debug_no_response

record Zketech =
  is_open :: bool
  device_state :: DeviceState
  prog_state :: "ProgState option"
  part_number :: "PartNumber option"
  written :: "int list list"
  logged :: "log_record list"

definition logging :: "log_record list \<Rightarrow> Zketech \<Rightarrow> Zketech" where
  "logging rs zk = zk\<lparr>logged := logged zk @ rs\<rparr>"

text \<open>
  \<open>ZketechParametersError\<close> is declared with \<open>def\<close>, not with \<open>class\<close>: it is a function
  of one argument that returns \<open>None\<close>, and \<open>raise None\<close> raises TypeError (exceptions must
  derive from BaseException). This is the error that \<open>raise ZketechParametersError(...)\<close>
  raises.
\<close>

definition raise_ZketechParametersError :: error where
  "raise_ZketechParametersError = TypeError"

text \<open>
  pyserial's \<open>reset_input_buffer\<close> raises PortNotOpenError on a closed port; on an open
  port it discards the bytes waiting, which changes nothing the record keeps.
\<close>

definition reset_input_buffer :: "Zketech \<Rightarrow> error + unit" where
  "reset_input_buffer zk = (if is_open zk then Inr () else Inl PortNotOpenError)"

definition send_request ::
  "Zketech \<Rightarrow> ReqCode \<Rightarrow> int \<Rightarrow> int \<Rightarrow> int \<Rightarrow> Zketech \<times> (error + unit)" where
  "send_request zk req_code p1 p2 p3 =
     (if \<not> is_open zk then (zk\<lparr>device_state := DS_disconnected\<rparr>, Inr ())
      else
        case RequestDataSet_init req_code p1 p2 p3 of
          Inl e \<Rightarrow> (zk, Inl e)
        | Inr data \<Rightarrow>
            (case get_buffer data of
               Inl e \<Rightarrow> (zk, Inl e)
             | Inr buff \<Rightarrow>
                 if \<not> buff = []
                 then (logging [Debug_sent_request, Debug_sent_buffer buff]
                         (zk\<lparr>written := written zk @ [buff]\<rparr>), Inr ())
                 else (zk, Inr ())))"

text \<open>
  \<open>read_response zk buff\<close>, where \<open>buff\<close> is what \<open>self.read(size=19)\<close> returns. A state
  assigned before an exception is raised stays assigned. After a successful validity
  check \<open>get_response_data_set\<close> cannot return \<open>None\<close>; the branch is the AttributeError
  that \<open>data.part_number\<close> would raise.
\<close>

definition read_response ::
  "Zketech \<Rightarrow> int list \<Rightarrow> Zketech \<times> (error + ResponseDataSet option)" where
  "read_response zk0 buff =
     (let zk = zk0\<lparr>part_number := None\<rparr> in
      if \<not> is_open zk
      then (logging [Debug_read_disconnected] (zk\<lparr>device_state := DS_disconnected\<rparr>), Inr None)
      else if length buff = 0
      then (logging [Debug_read_idled] (zk\<lparr>device_state := DS_idle\<rparr>), Inr None)
      else if \<not> check_buffer_validity buff
      then (logging [Debug_buffer_invalid] zk, Inr None)
      else
        let zk1 = zk\<lparr>device_state := DS_monitoring\<rparr> in
        case get_response_data_set buff of
          Inl e \<Rightarrow> (zk1, Inl e)
        | Inr None \<Rightarrow> (zk1, Inl AttributeError)
        | Inr (Some data) \<Rightarrow>
            let zk2 = zk1\<lparr>part_number := Some (rs_part_number data)\<rparr>;
                zk3 = (if rs_state_code data = SC_testing
                       then zk2\<lparr>device_state := DS_testing\<rparr> else zk2);
                zk4 = (if rs_state_code data = SC_ending
                       then zk3\<lparr>device_state := DS_ending\<rparr> else zk3)
            in case ProgState_of (ProgCode_value (rs_prog_code data)) of
                 None \<Rightarrow> (zk4, Inl ValueError)
               | Some ps \<Rightarrow>
                   (logging [Debug_received_response, Debug_received_buffer buff]
                      (zk4\<lparr>prog_state := Some ps\<rparr>), Inr (Some data)))"

definition get_device_state :: "Zketech \<Rightarrow> int list \<Rightarrow> Zketech \<times> (error + unit)" where
  "get_device_state zk buff =
     (case read_response zk buff of
        (zk', Inl e) \<Rightarrow> (zk', Inl e)
      | (zk', Inr _) \<Rightarrow> (zk', Inr ()))"

definition start_device :: "Zketech \<Rightarrow> Zketech \<times> (error + unit)" where
  "start_device zk =
     (if \<not> device_state zk = DS_idle then (logging [Warning_wrong_state] zk, Inr ())
      else send_request (logging [Debug_sending_request ReqCode.start_device 0 0 0] zk)
             ReqCode.start_device 0 0 0)"

definition stop_device :: "Zketech \<Rightarrow> Zketech \<times> (error + unit)" where
  "stop_device zk =
     (if \<not> device_state zk = DS_monitoring then (logging [Warning_wrong_state] zk, Inr ())
      else send_request (logging [Debug_sending_request ReqCode.stop_device 0 0 0] zk)
             ReqCode.stop_device 0 0 0)"

definition stop_test :: "Zketech \<Rightarrow> Zketech \<times> (error + unit)" where
  "stop_test zk =
     (if \<not> device_state zk = DS_testing then (logging [Warning_wrong_state] zk, Inr ())
      else send_request (logging [Debug_sending_request ReqCode.stop_test 0 0 0] zk)
             ReqCode.stop_test 0 0 0)"

definition continue_test :: "Zketech \<Rightarrow> Zketech \<times> (error + unit)" where
  "continue_test zk = (zk, Inl NotImplementedError)"

definition update_test :: "Zketech \<Rightarrow> Zketech \<times> (error + unit)" where
  "update_test zk = (zk, Inl NotImplementedError)"

definition discharge_cc :: "Zketech \<Rightarrow> rat \<Rightarrow> rat \<Rightarrow> int \<Rightarrow> Zketech \<times> (error + unit)" where
  "discharge_cc zk current cutoff_voltage max_duration =
     (if \<not> device_state zk = DS_monitoring then (logging [Warning_wrong_state] zk, Inr ())
      else if current < 0 then (zk, Inl raise_ZketechParametersError)
      else if cutoff_voltage < 0 then (zk, Inl raise_ZketechParametersError)
      else if max_duration < 0 then (zk, Inl raise_ZketechParametersError)
      else if max_duration > 999 then (zk, Inl raise_ZketechParametersError)
      else
        case float_int (fl (current * 1000)) of
          Inl e \<Rightarrow> (zk, Inl e)
        | Inr p1 \<Rightarrow>
            (case float_int (fl (cutoff_voltage * 100)) of
               Inl e \<Rightarrow> (zk, Inl e)
             | Inr p2 \<Rightarrow>
                 let p3 = max_duration
                 in send_request (logging [Debug_sending_request start_d_cc p1 p2 p3] zk)
                      start_d_cc p1 p2 p3))"

definition discharge_cp :: "Zketech \<Rightarrow> rat \<Rightarrow> rat \<Rightarrow> int \<Rightarrow> Zketech \<times> (error + unit)" where
  "discharge_cp zk pwr cutoff_voltage max_duration =
     (if \<not> device_state zk = DS_monitoring then (logging [Warning_wrong_state] zk, Inr ())
      else if pwr < 0 then (zk, Inl raise_ZketechParametersError)
      else if cutoff_voltage < 0 then (zk, Inl raise_ZketechParametersError)
      else if max_duration < 0 then (zk, Inl raise_ZketechParametersError)
      else if max_duration > 999 then (zk, Inl raise_ZketechParametersError)
      else
        case float_int (fl (pwr * 10)) of
          Inl e \<Rightarrow> (zk, Inl e)
        | Inr p1 \<Rightarrow>
            (case float_int (fl (cutoff_voltage * 100)) of
               Inl e \<Rightarrow> (zk, Inl e)
             | Inr p2 \<Rightarrow>
                 let p3 = max_duration
                 in send_request (logging [Debug_sending_request start_d_cp p1 p2 p3] zk)
                      start_d_cp p1 p2 p3))"

definition charge_generic ::
  "Zketech \<Rightarrow> ReqCode \<Rightarrow> rat \<Rightarrow> int \<Rightarrow> int \<Rightarrow> Zketech \<times> (error + unit)" where
  "charge_generic zk req_code current nb_cells max_duration =
     (if \<not> device_state zk = DS_monitoring then (logging [Warning_wrong_state] zk, Inr ())
      else if current < 0 then (zk, Inl raise_ZketechParametersError)
      else if nb_cells < 1 then (zk, Inl raise_ZketechParametersError)
      else if max_duration < 0 then (zk, Inl raise_ZketechParametersError)
      else if max_duration > 999 then (zk, Inl raise_ZketechParametersError)
      else
        case float_int (fl (current * 1000)) of
          Inl e \<Rightarrow> (zk, Inl e)
        | Inr p1 \<Rightarrow>
            let p2 = nb_cells;
                p3 = max_duration
            in send_request (logging [Debug_sending_request req_code p1 p2 p3] zk)
                 req_code p1 p2 p3)"

definition charge_nimh :: "Zketech \<Rightarrow> rat \<Rightarrow> int \<Rightarrow> int \<Rightarrow> Zketech \<times> (error + unit)" where
  "charge_nimh zk current nb_cells max_duration =
     charge_generic zk start_c_nimh current nb_cells max_duration"

definition charge_nicd :: "Zketech \<Rightarrow> rat \<Rightarrow> int \<Rightarrow> int \<Rightarrow> Zketech \<times> (error + unit)" where
  "charge_nicd zk current nb_cells max_duration =
     charge_generic zk start_c_nicd current nb_cells max_duration"

definition charge_liion :: "Zketech \<Rightarrow> rat \<Rightarrow> int \<Rightarrow> int \<Rightarrow> Zketech \<times> (error + unit)" where
  "charge_liion zk current nb_cells max_duration =
     charge_generic zk start_c_liion current nb_cells max_duration"

definition charge_life :: "Zketech \<Rightarrow> rat \<Rightarrow> int \<Rightarrow> int \<Rightarrow> Zketech \<times> (error + unit)" where
  "charge_life zk current nb_cells max_duration =
     charge_generic zk start_c_life current nb_cells max_duration"

definition charge_vrla :: "Zketech \<Rightarrow> rat \<Rightarrow> int \<Rightarrow> int \<Rightarrow> Zketech \<times> (error + unit)" where
  "charge_vrla zk current nb_cells max_duration =
     charge_generic zk start_c_vrla current nb_cells max_duration"

definition charge_cv :: "Zketech \<Rightarrow> rat \<Rightarrow> int \<Rightarrow> int \<Rightarrow> Zketech \<times> (error + unit)" where
  "charge_cv zk current nb_cells max_duration =
     charge_generic zk start_c_cv current nb_cells max_duration"

text \<open>
  \<open>measure_resistance zk current buff\<close>, with \<open>current\<close> an integer number of mA and \<open>buff\<close>
  the bytes read by the call of \<open>read_response\<close>. \<open>p1 / 1000\<close> is the quotient of two
  integers rounded to a double; \<open>res.c / (p1 / 1000)\<close> is a float division, which raises
  ZeroDivisionError when the divisor is zero and whose result is rounded again. The
  capacity \<open>res.c\<close> of a response is at most 255 * 240 + 255, so its conversion to a
  float is exact.
\<close>

definition measure_resistance ::
  "Zketech \<Rightarrow> int \<Rightarrow> int list \<Rightarrow> Zketech \<times> (error + int option)" where
  "measure_resistance zk current buff =
     (if \<not> device_state zk = DS_monitoring then (logging [Warning_wrong_state] zk, Inr None)
      else if current < 0 then (zk, Inl raise_ZketechParametersError)
      else if current > 30000 then (zk, Inl raise_ZketechParametersError)
      else
        let p1 = current; p2 = 0; p3 = 0 in
        case send_request (logging [Debug_sending_request mes_resistance p1 p2 p3] zk)
               mes_resistance p1 p2 p3 of
          (zk1, Inl e) \<Rightarrow> (zk1, Inl e)
        | (zk1, Inr _) \<Rightarrow>
            (case reset_input_buffer zk1 of
               Inl e \<Rightarrow> (zk1, Inl e)
             | Inr _ \<Rightarrow>
                 (case read_response zk1 buff of
                    (zk2, Inl e) \<Rightarrow> (zk2, Inl e)
                  | (zk2, Inr None) \<Rightarrow> (logging [Debug_no_response] zk2, Inr None)
                  | (zk2, Inr (Some res)) \<Rightarrow>
                      let d = fl (of_int p1 / 1000) in
                      if d = 0 then (zk2, Inl ZeroDivisionError)
                      else
                        (case float_int (fl (of_int (rs_c res) / d)) of
                           Inl e \<Rightarrow> (zk2, Inl e)
                         | Inr r \<Rightarrow> (zk2, Inr (Some r))))))"

definition calibrate_voltage :: "Zketech \<Rightarrow> rat \<Rightarrow> string \<Rightarrow> Zketech \<times> (error + unit)" where
  "calibrate_voltage zk voltage level =
     (if \<not> device_state zk = DS_monitoring then (logging [Warning_wrong_state] zk, Inr ())
      else if voltage < 0 then (zk, Inl raise_ZketechParametersError)
      else if \<not> (level = ''lower'' \<or> level = ''upper'')
      then (zk, Inl raise_ZketechParametersError)
      else
        case float_int (fl (voltage * 1000)) of
          Inl e \<Rightarrow> (zk, Inl e)
        | Inr r1 \<Rightarrow>
            (case float_int (fl (voltage * 1000)) of
               Inl e \<Rightarrow> (zk, Inl e)
             | Inr r2 \<Rightarrow>
                 let p1 = r1 div 240;
                     p2 = r2 mod 240 * 240;
                     p3 = 0;
                     p1 = (if level = ''lower'' then p1 + 240 * 0 else p1);
                     p1 = (if level = ''upper'' then p1 + 240 * 1 else p1)
                 in case send_request (logging [Debug_sending_request calibrate p1 p2 p3] zk)
                           calibrate p1 p2 p3 of
                      (zk1, Inl e) \<Rightarrow> (zk1, Inl e)
                    | (zk1, Inr _) \<Rightarrow> (zk1, reset_input_buffer zk1)))"

definition calibrate_current :: "Zketech \<Rightarrow> rat \<Rightarrow> string \<Rightarrow> Zketech \<times> (error + unit)" where
  "calibrate_current zk current level =
     (if (\<not> device_state zk = DS_testing) \<or> (\<not> prog_state zk = Some PS_d_cc)
      then (logging [Warning_wrong_state] zk, Inr ())
      else if current < 0 then (zk, Inl raise_ZketechParametersError)
      else if \<not> (level = ''lower'' \<or> level = ''upper'')
      then (zk, Inl raise_ZketechParametersError)
      else
        case float_int (fl (current * 1000)) of
          Inl e \<Rightarrow> (zk, Inl e)
        | Inr r1 \<Rightarrow>
            (case float_int (fl (current * 1000)) of
               Inl e \<Rightarrow> (zk, Inl e)
             | Inr r2 \<Rightarrow>
                 let p1 = r1 div 240;
                     p2 = r2 mod 240 * 240;
                     p3 = 0;
                     p1 = (if level = ''lower'' then p1 + 240 * 2 else p1);
                     p1 = (if level = ''upper'' then p1 + 240 * 3 else p1)
                 in case send_request (logging [Debug_sending_request calibrate p1 p2 p3] zk)
                           calibrate p1 p2 p3 of
                      (zk1, Inl e) \<Rightarrow> (zk1, Inl e)
                    | (zk1, Inr _) \<Rightarrow> (zk1, reset_input_buffer zk1)))"

section \<open>The safety watcher of cmd_control.py\<close>

text \<open>
  The four attributes are \<open>float | None\<close>. \<open>truthy\<close> is Python's truth value of such an
  attribute: \<open>None\<close> and \<open>0.0\<close> are false. \<open>update\<close> returns \<open>None\<close> or \<open>False\<close>;
  \<open>min\<close> of \<open>None\<close> and a float raises TypeError. The sum \<open>self.min_current + 0.05\<close> is
  a float addition.
\<close>

record SafetyWatcher =
  min_voltage :: "rat option"
  min_current :: "rat option"
  last_voltage :: "rat option"
  last_current :: "rat option"

definition SafetyWatcher_init :: SafetyWatcher where
  "SafetyWatcher_init =
     \<lparr>min_voltage = None, min_current = None, last_voltage = None, last_current = None\<rparr>"

fun truthy :: "rat option \<Rightarrow> bool" where
  "truthy None = False"
| "truthy (Some x) = (\<not> x = 0)"

definition update ::
  "SafetyWatcher \<Rightarrow> ResponseDataSet \<Rightarrow> SafetyWatcher \<times> (error + bool option)" where
  "update sw0 resp =
     (let sw = (if \<not> rs_state_code resp = SC_testing
                then sw0\<lparr>min_voltage := None, min_current := None\<rparr> else sw0) in
      if (\<not> truthy (min_voltage sw)) \<or> (\<not> truthy (min_current sw)) then (sw, Inr None)
      else
        let sw1 = sw\<lparr>last_voltage := Some (rs_u resp), last_current := Some (rs_i resp)\<rparr> in
        if \<not> (truthy (min_voltage sw1) \<and> truthy (min_current sw1))
        then (sw1\<lparr>min_voltage := last_voltage sw1, min_current := last_current sw1\<rparr>,
              Inr (Some False))
        else
          case (min_voltage sw1, min_current sw1) of
            (Some mv, Some mc) \<Rightarrow>
              (sw1\<lparr>min_voltage := Some (min mv (rs_u resp)),
                   min_current := Some (min mc (rs_i resp))\<rparr>, Inr None)
          | _ \<Rightarrow> (sw1, Inl TypeError))"

definition check_charging_current_increase :: "SafetyWatcher \<Rightarrow> bool option" where
  "check_charging_current_increase sw =
     (if \<not> truthy (last_current sw) then None
      else if \<not> truthy (min_current sw) then None
      else
        case (last_current sw, min_current sw) of
          (Some l, Some m) \<Rightarrow> Some (l > fl (m + fl (5 / 100)))
        | _ \<Rightarrow> None)"

definition check :: "SafetyWatcher \<Rightarrow> bool" where
  "check sw = (if check_charging_current_increase sw = Some True then True else False)"

text \<open>
  The polling loops of cmd_control.py call \<open>sw.update(resp)\<close> and then \<open>sw.check()\<close> on
  every response read. \<open>monitor\<close> runs this on a sequence of responses and collects what
  \<open>check\<close> reports after each; an exception raised by \<open>update\<close> ends the run.
\<close>

fun monitor :: "SafetyWatcher \<Rightarrow> ResponseDataSet list \<Rightarrow> error + (SafetyWatcher \<times> bool list)" where
  "monitor sw [] = Inr (sw, [])"
| "monitor sw (resp # resps) =
     (case update sw resp of
        (sw', Inl e) \<Rightarrow> Inl e
      | (sw', Inr _) \<Rightarrow>
          (case monitor sw' resps of
             Inl e \<Rightarrow> Inl e
           | Inr (sw'', reports) \<Rightarrow> Inr (sw'', check sw' # reports)))"

section \<open>The calibration parameters of the specification\<close>

text \<open>
  The parameters of a calibration request in the words of the specification, to compare
  with what \<open>calibrate_voltage\<close> and \<open>calibrate_current\<close> compute:
  \<open>raw = round(value * 1000)\<close>, \<open>p1 = raw div 240 + 240 * offset\<close>,
  \<open>p2 = (raw mod 240) * 240\<close>, \<open>p3 = 0\<close>.
\<close>

definition spec_calibration_params :: "rat \<Rightarrow> int \<Rightarrow> int \<times> int \<times> int" where
  "spec_calibration_params v offset =
     (let raw = round (v * 1000) in (raw div 240 + 240 * offset, raw mod 240 * 240, 0))"

section \<open>Notation for the theorems\<close>

text \<open>The ten bytes of a request, as \<open>get_buffer\<close> lays them out.\<close>

abbreviation request_frame :: "ReqCode \<Rightarrow> int \<Rightarrow> int \<Rightarrow> int \<Rightarrow> int list" where
  "request_frame rc p1 p2 p3 \<equiv>
     [250, ReqCode_value rc, p1 div 240, p1 mod 240, p2 div 240, p2 mod 240,
      p3 div 240, p3 mod 240,
      (ReqCode_value rc XOR (p1 div 240) XOR (p1 mod 240) XOR (p2 div 240)
         XOR (p2 mod 240) XOR (p3 div 240) XOR (p3 mod 240)) mod 240,
      248]"

section \<open>Properties of the request encoder\<close>

lemma ReqCode_of_value: "ReqCode_of (ReqCode_value rc) = Some rc"
  by (cases rc) (simp_all add: ReqCode_of_def)

lemma ReqCode_value_byte: "0 \<le> ReqCode_value rc \<and> ReqCode_value rc \<le> 255"
  by (cases rc) simp_all

lemma checksum7:
  "zketech_checksum [a, b, c, d, e, f, g] =
     Inr ((a XOR b XOR c XOR d XOR e XOR f XOR g) mod 240)"
  by (simp add: zketech_checksum_def xor.assoc)

lemma hi_byte: "0 \<le> p \<Longrightarrow> p \<le> 57600 \<Longrightarrow> 0 \<le> p div 240 \<and> p div 240 \<le> (255::int)"
  by (simp add: pos_imp_zdiv_nonneg_iff)

lemma lo_byte: "0 \<le> p mod 240 \<and> p mod 240 \<le> (255::int)"
  by (smt (verit) pos_mod_bound pos_mod_sign)

lemma request_frame_valid: "check_buffer_validity (request_frame rc p1 p2 p3)"
  by (simp add: check_buffer_validity_def buffer_defect_def payload_def checksum7
      BEGIN_MARKER_def END_MARKER_def ReqCode_of_value)

lemma request_frame_pack:
  assumes "0 \<le> p1" "p1 \<le> 57600" "0 \<le> p2" "p2 \<le> 57600" "0 \<le> p3" "p3 \<le> 57600"
  shows "struct_pack_B (request_frame rc p1 p2 p3) = Inr (request_frame rc p1 p2 p3)"
proof -
  let ?ck = "(ReqCode_value rc XOR (p1 div 240) XOR (p1 mod 240) XOR (p2 div 240)
                XOR (p2 mod 240) XOR (p3 div 240) XOR (p3 mod 240)) mod 240"
  have ck: "0 \<le> ?ck \<and> ?ck \<le> 255"
    by (rule lo_byte)
  show ?thesis
    using hi_byte[OF assms(1,2)] hi_byte[OF assms(3,4)] hi_byte[OF assms(5,6)]
      lo_byte[of p1] lo_byte[of p2] lo_byte[of p3] ck ReqCode_value_byte[of rc]
    by (simp add: struct_pack_B_def)
qed

lemma get_buffer_layout:
  assumes "0 \<le> p1" "p1 \<le> 57600" "0 \<le> p2" "p2 \<le> 57600" "0 \<le> p3" "p3 \<le> 57600"
  shows "\<exists>data. RequestDataSet_init rc p1 p2 p3 = Inr data \<and>
           get_buffer data = Inr (request_frame rc p1 p2 p3)"
  using assms request_frame_valid[of rc p1 p2 p3] request_frame_pack[OF assms, of rc]
  by (simp add: RequestDataSet_init_def get_buffer_def checksum7
      BEGIN_MARKER_def END_MARKER_def)

text \<open>
  Claim C4. For a request whose three parameters lie in 0..57600 the constructor succeeds
  and \<open>get_buffer\<close> returns exactly ten bytes: 250, the request code, the high and low
  parts (div 240, mod 240) of p1, p2 and p3, the XOR of these seven bytes modulo 240, and
  248. The re-verification of the frame passes, so the empty buffer is never returned.
\<close>

theorem encode_layout:
  assumes "0 \<le> p1" "p1 \<le> 57600" "0 \<le> p2" "p2 \<le> 57600" "0 \<le> p3" "p3 \<le> 57600"
  shows "\<exists>data. RequestDataSet_init rc p1 p2 p3 = Inr data \<and>
           get_buffer data =
             Inr [250, ReqCode_value rc, p1 div 240, p1 mod 240, p2 div 240, p2 mod 240,
                  p3 div 240, p3 mod 240,
                  (ReqCode_value rc XOR (p1 div 240) XOR (p1 mod 240) XOR (p2 div 240)
                     XOR (p2 mod 240) XOR (p3 div 240) XOR (p3 mod 240)) mod 240,
                  248] \<and>
           check_buffer_validity
             [250, ReqCode_value rc, p1 div 240, p1 mod 240, p2 div 240, p2 mod 240,
              p3 div 240, p3 mod 240,
              (ReqCode_value rc XOR (p1 div 240) XOR (p1 mod 240) XOR (p2 div 240)
                 XOR (p2 mod 240) XOR (p3 div 240) XOR (p3 mod 240)) mod 240,
              248]"
  using get_buffer_layout[OF assms, of rc] request_frame_valid[of rc p1 p2 p3]
  by blast

theorem encode_layout_witness:
  "(0::int) \<le> 1000 \<and> (1000::int) \<le> 57600 \<and> (0::int) \<le> 300 \<and> (300::int) \<le> 57600 \<and>
   (0::int) \<le> 10 \<and> (10::int) \<le> 57600 \<and>
   (\<exists>data. RequestDataSet_init start_d_cc 1000 300 10 = Inr data \<and>
      get_buffer data = Inr [250, 1, 4, 40, 1, 60, 0, 10, 26, 248] \<and>
      check_buffer_validity [250, 1, 4, 40, 1, 60, 0, 10, 26, 248])"
  using encode_layout [of 1000 300 10 start_d_cc] by simp

section \<open>The safety watcher\<close>

lemma update_fresh: "update SafetyWatcher_init resp = (SafetyWatcher_init, Inr None)"
  by (simp add: update_def SafetyWatcher_init_def)

lemma check_fresh: "check SafetyWatcher_init = False"
  by (simp add: check_def check_charging_current_increase_def SafetyWatcher_init_def)

text \<open>
  A watcher starts with both minima \<open>None\<close>, and \<open>update\<close> returns at its second test as
  long as one of them is \<open>None\<close> or zero: the seeding below that test is never reached.
  Whatever the responses, the watcher stays as it was created and \<open>check\<close> reports
  nothing.
\<close>

lemma monitor_fresh:
  "monitor SafetyWatcher_init resps = Inr (SafetyWatcher_init, replicate (length resps) False)"
  by (induction resps) (simp_all add: update_fresh check_fresh)

text \<open>
  Claim C1, evaluated on the claim's own sequence. Three responses in status testing with
  currents 1.00 A, 1.00 A and 1.06 A (4 V each) are given to a new watcher: the minima are
  never seeded and \<open>check\<close> reports no anomaly three times, also after the third sample,
  where the claim expects an anomaly.
\<close>

theorem safety_watcher_sequence:
  "monitor SafetyWatcher_init
     [\<lparr>rs_state_code = SC_testing, rs_prog_code = PC_c_liion, rs_i = 1, rs_u = 4,
       rs_c = 0, rs_unknown = 0, rs_p1 = 1000, rs_p2 = 1, rs_p3 = 0,
       rs_part_number = ebc_a05, rs_checksum = 0\<rparr>,
      \<lparr>rs_state_code = SC_testing, rs_prog_code = PC_c_liion, rs_i = 1, rs_u = 4,
       rs_c = 0, rs_unknown = 0, rs_p1 = 1000, rs_p2 = 1, rs_p3 = 0,
       rs_part_number = ebc_a05, rs_checksum = 0\<rparr>,
      \<lparr>rs_state_code = SC_testing, rs_prog_code = PC_c_liion, rs_i = 106 / 100, rs_u = 4,
       rs_c = 0, rs_unknown = 0, rs_p1 = 1000, rs_p2 = 1, rs_p3 = 0,
       rs_part_number = ebc_a05, rs_checksum = 0\<rparr>]
   = Inr (SafetyWatcher_init, [False, False, False])"
  by (simp add: update_def check_def check_charging_current_increase_def
      SafetyWatcher_init_def)

section \<open>Reading responses\<close>

text \<open>
  Claim C3, as the code has it. On an open port, a non-empty buffer that fails the
  validity check leaves the session state and the active program as they were, writes
  nothing, and makes \<open>read_response\<close> return \<open>None\<close> without raising; the part number,
  which \<open>read_response\<close> clears on entry, is \<open>None\<close> afterwards.
\<close>

theorem read_invalid_frame:
  assumes "is_open zk" "\<not> buff = []" "\<not> check_buffer_validity buff"
  shows "read_response zk buff =
           (logging [Debug_buffer_invalid] (zk\<lparr>part_number := None\<rparr>), Inr None) \<and>
         device_state (fst (read_response zk buff)) = device_state zk \<and>
         prog_state (fst (read_response zk buff)) = prog_state zk \<and>
         part_number (fst (read_response zk buff)) = None \<and>
         written (fst (read_response zk buff)) = written zk \<and>
         is_open (fst (read_response zk buff))"
  using assms by (simp add: read_response_def Let_def logging_def)

theorem read_invalid_frame_witness:
  "read_response
      \<lparr>is_open = True, device_state = DS_testing, prog_state = Some PS_d_cc,
       part_number = Some ebc_a05, written = [], logged = []\<rparr> [250, 7]
   = (\<lparr>is_open = True, device_state = DS_testing, prog_state = Some PS_d_cc,
       part_number = None, written = [], logged = [Debug_buffer_invalid]\<rparr>, Inr None)"
proof -
  have inv: "\<not> check_buffer_validity [250, 7]"
    by (simp add: check_buffer_validity_def buffer_defect_def)
  show ?thesis
    using read_invalid_frame [of "\<lparr>is_open = True, device_state = DS_testing,
       prog_state = Some PS_d_cc, part_number = Some ebc_a05, written = [], logged = []\<rparr>"
       "[250, 7]"] inv
    by (simp add: logging_def)
qed

text \<open>
  The claim as stated fails: a device whose part number is known (EBC-A05) reads the
  single byte 0, which is no frame, and the part number is gone.
\<close>

theorem read_invalid_frame_counterexample:
  "\<not> [0] = ([] :: int list) \<and> \<not> check_buffer_validity [0] \<and>
   part_number (fst (read_response
      \<lparr>is_open = True, device_state = DS_monitoring, prog_state = Some PS_d_cc,
       part_number = Some ebc_a05, written = [], logged = []\<rparr> [0]))
   \<noteq> part_number \<lparr>is_open = True, device_state = DS_monitoring, prog_state = Some PS_d_cc,
       part_number = Some ebc_a05, written = [], logged = []\<rparr>"
  by (simp add: read_response_def Let_def logging_def check_buffer_validity_def
      buffer_defect_def)

lemma valid19_codes:
  assumes "check_buffer_validity buff" "length buff = 19"
  shows "\<exists>sc pc pn. StateCode_of (buff ! 1 div 10) = Some sc \<and>
           ProgCode_of (buff ! 1 mod 10) = Some pc \<and> PartNumber_of (buff ! 16) = Some pn"
  using assms
  by (auto simp add: check_buffer_validity_def buffer_defect_def Let_def split: if_splits)

lemma decode_valid19:
  assumes "check_buffer_validity buff" "length buff = 19"
  shows "\<exists>sc pc pn. StateCode_of (buff ! 1 div 10) = Some sc \<and>
           ProgCode_of (buff ! 1 mod 10) = Some pc \<and> PartNumber_of (buff ! 16) = Some pn \<and>
           get_response_data_set buff =
             Inr (Some \<lparr>rs_state_code = sc, rs_prog_code = pc,
               rs_i = of_int (buff ! 2 * 240 + buff ! 3) / 1000,
               rs_u = of_int (buff ! 4 * 240 + buff ! 5) / 1000,
               rs_c = buff ! 6 * 240 + buff ! 7,
               rs_unknown = buff ! 8 * 240 + buff ! 9,
               rs_p1 = buff ! 10 * 240 + buff ! 11,
               rs_p2 = buff ! 12 * 240 + buff ! 13,
               rs_p3 = buff ! 14 * 240 + buff ! 15,
               rs_part_number = pn, rs_checksum = buff ! 17\<rparr>)"
proof -
  from valid19_codes[OF assms] obtain sc pc pn where
    c: "StateCode_of (buff ! 1 div 10) = Some sc" "ProgCode_of (buff ! 1 mod 10) = Some pc"
       "PartNumber_of (buff ! 16) = Some pn"
    by blast
  then show ?thesis
    using assms by (simp add: get_response_data_set_def ResponseDataSet_init_def)
qed

lemma ProgState_of_value: "\<exists>ps. ProgState_of (ProgCode_value pc) = Some ps"
  by (cases pc) (simp_all add: ProgState_of_def)

lemma StateCode_of_1: "StateCode_of 1 = Some SC_testing"
  by (simp add: StateCode_of_def)

lemma read_response_valid19:
  assumes "is_open zk" "check_buffer_validity buff" "length buff = 19"
  shows "\<exists>data ps. get_response_data_set buff = Inr (Some data) \<and>
           ProgState_of (ProgCode_value (rs_prog_code data)) = Some ps \<and>
           read_response zk buff =
             (logging [Debug_received_response, Debug_received_buffer buff]
                (zk\<lparr>part_number := Some (rs_part_number data),
                    device_state := (if rs_state_code data = SC_ending then DS_ending
                                     else if rs_state_code data = SC_testing then DS_testing
                                     else DS_monitoring),
                    prog_state := Some ps\<rparr>), Inr (Some data))"
proof -
  from decode_valid19[OF assms(2,3)] obtain data where
    d: "get_response_data_set buff = Inr (Some data)" by blast
  from ProgState_of_value obtain ps where
    ps: "ProgState_of (ProgCode_value (rs_prog_code data)) = Some ps" by blast
  have ne: "\<not> length buff = 0" using assms(3) by simp
  show ?thesis
    using assms(1,2) ne d ps
    by (auto simp add: read_response_def Let_def logging_def)
qed

text \<open>
  Claim C7. On an open port a read that returns no byte sets the session state to idle,
  whatever it was, so after any positive number of such reads the state is idle; and a
  read that returns a valid 19-byte response whose status code is 1 (testing) sets the
  session state to testing and returns the decoded response.
\<close>

theorem read_state_machine:
  assumes "is_open zk"
  shows "device_state (fst (read_response zk [])) = DS_idle \<and>
         snd (read_response zk []) = Inr None \<and>
         device_state (((\<lambda>z. fst (read_response z [])) ^^ Suc n) zk) = DS_idle \<and>
         (check_buffer_validity buff \<and> length buff = 19 \<and> buff ! 1 div 10 = 1 \<longrightarrow>
            device_state (fst (read_response zk buff)) = DS_testing \<and>
            (\<exists>data. snd (read_response zk buff) = Inr (Some data) \<and>
                     rs_state_code data = SC_testing))"
proof -
  have e: "\<And>z. is_open z \<Longrightarrow> read_response z [] =
             (logging [Debug_read_idled] (z\<lparr>part_number := None, device_state := DS_idle\<rparr>), Inr None)"
    by (simp add: read_response_def Let_def)
  have o: "\<And>z. is_open z \<Longrightarrow> is_open (fst (read_response z []))"
    by (simp add: e logging_def)
  have it: "is_open (((\<lambda>z. fst (read_response z [])) ^^ n) zk)"
    by (induction n) (simp_all add: assms o)
  have a: "device_state (fst (read_response zk [])) = DS_idle"
    by (simp add: e[OF assms] logging_def)
  have b: "snd (read_response zk []) = Inr None"
    by (simp add: e[OF assms])
  have c: "device_state (((\<lambda>z. fst (read_response z [])) ^^ Suc n) zk) = DS_idle"
    by (simp add: e[OF it] logging_def)
  have d: "device_state (fst (read_response zk buff)) = DS_testing \<and>
            (\<exists>data. snd (read_response zk buff) = Inr (Some data) \<and>
                     rs_state_code data = SC_testing)"
    if v: "check_buffer_validity buff" and l: "length buff = 19" and t: "buff ! 1 div 10 = 1"
  proof -
    from decode_valid19[OF v l] t obtain data where
      g: "get_response_data_set buff = Inr (Some data)" and s: "rs_state_code data = SC_testing"
      by (auto simp add: StateCode_of_1)
    from read_response_valid19[OF assms v l] g s show ?thesis
      by (auto simp add: logging_def)
  qed
  show ?thesis using a b c d by blast
qed

theorem read_state_machine_witness:
  "device_state (fst (read_response
      \<lparr>is_open = True, device_state = DS_ending, prog_state = None,
       part_number = None, written = [], logged = []\<rparr> [])) = DS_idle \<and>
   device_state (fst (read_response
      \<lparr>is_open = True, device_state = DS_idle, prog_state = None,
       part_number = None, written = [], logged = []\<rparr>
      [250, 10, 4, 40, 16, 160, 0, 0, 0, 0, 4, 40, 0, 1, 0, 0, 5, 190, 248])) = DS_testing"
proof -
  have v: "check_buffer_validity [250, 10, 4, 40, 16, 160, 0, 0, 0, 0, 4, 40, 0, 1, 0, 0, 5, 190, 248]"
    by (simp add: check_buffer_validity_def buffer_defect_def payload_def zketech_checksum_def
        BEGIN_MARKER_def END_MARKER_def StateCode_of_def ProgCode_of_def PartNumber_of_def)
  show ?thesis
    using read_state_machine [of "\<lparr>is_open = True, device_state = DS_ending, prog_state = None,
       part_number = None, written = [], logged = []\<rparr>" 0 "[]"]
      read_state_machine [of "\<lparr>is_open = True, device_state = DS_idle, prog_state = None,
       part_number = None, written = [], logged = []\<rparr>" 0
       "[250, 10, 4, 40, 16, 160, 0, 0, 0, 0, 4, 40, 0, 1, 0, 0, 5, 190, 248]"] v
    by simp
qed

section \<open>Decoding a response\<close>

text \<open>
  Claim C6. A valid 19-byte frame decodes to a response whose current and voltage are
  (high * 240 + low) / 1000, whose capacity, unknown field and three echoed parameters are
  high * 240 + low without scaling; so a frame whose byte pairs are the div 240 and mod 240
  parts of a current in mA, a voltage in mV and a capacity gives back these values (the
  first two divided by 1000). Floats are exact rationals here.
\<close>

theorem decode_scaling:
  assumes "check_buffer_validity buff" "length buff = 19"
  shows "\<exists>data. get_response_data_set buff = Inr (Some data) \<and>
           rs_i data = of_int (buff ! 2 * 240 + buff ! 3) / 1000 \<and>
           rs_u data = of_int (buff ! 4 * 240 + buff ! 5) / 1000 \<and>
           rs_c data = buff ! 6 * 240 + buff ! 7 \<and>
           rs_unknown data = buff ! 8 * 240 + buff ! 9 \<and>
           rs_p1 data = buff ! 10 * 240 + buff ! 11 \<and>
           rs_p2 data = buff ! 12 * 240 + buff ! 13 \<and>
           rs_p3 data = buff ! 14 * 240 + buff ! 15 \<and>
           (buff ! 2 = i_mA div 240 \<and> buff ! 3 = i_mA mod 240 \<longrightarrow>
              rs_i data = of_int i_mA / 1000) \<and>
           (buff ! 4 = u_mV div 240 \<and> buff ! 5 = u_mV mod 240 \<longrightarrow>
              rs_u data = of_int u_mV / 1000) \<and>
           (buff ! 6 = c_mAh div 240 \<and> buff ! 7 = c_mAh mod 240 \<longrightarrow> rs_c data = c_mAh)"
proof -
  from decode_valid19[OF assms] obtain data where
    d: "get_response_data_set buff = Inr (Some data)"
      "rs_i data = of_int (buff ! 2 * 240 + buff ! 3) / 1000"
      "rs_u data = of_int (buff ! 4 * 240 + buff ! 5) / 1000"
      "rs_c data = buff ! 6 * 240 + buff ! 7"
      "rs_unknown data = buff ! 8 * 240 + buff ! 9"
      "rs_p1 data = buff ! 10 * 240 + buff ! 11"
      "rs_p2 data = buff ! 12 * 240 + buff ! 13"
      "rs_p3 data = buff ! 14 * 240 + buff ! 15"
    by auto
  have ri: "rs_i data = of_int i_mA / 1000"
    if h: "buff ! 2 = i_mA div 240 \<and> buff ! 3 = i_mA mod 240"
  proof -
    from h have "buff ! 2 * 240 + buff ! 3 = i_mA" by simp
    with d(2) show ?thesis by simp
  qed
  have ru: "rs_u data = of_int u_mV / 1000"
    if h: "buff ! 4 = u_mV div 240 \<and> buff ! 5 = u_mV mod 240"
  proof -
    from h have "buff ! 4 * 240 + buff ! 5 = u_mV" by simp
    with d(3) show ?thesis by simp
  qed
  have rc: "rs_c data = c_mAh"
    if h: "buff ! 6 = c_mAh div 240 \<and> buff ! 7 = c_mAh mod 240"
  proof -
    from h have "buff ! 6 * 240 + buff ! 7 = c_mAh" by simp
    with d(4) show ?thesis by simp
  qed
  show ?thesis
    using d ri ru rc by blast
qed

lemma frame_a_valid:
  "check_buffer_validity [250, 10, 4, 40, 16, 160, 2, 20, 0, 0, 4, 40, 0, 1, 0, 0, 5, 168, 248]"
  by (simp add: check_buffer_validity_def buffer_defect_def payload_def zketech_checksum_def
      BEGIN_MARKER_def END_MARKER_def StateCode_of_def ProgCode_of_def PartNumber_of_def)

theorem decode_scaling_witness:
  "\<exists>data. get_response_data_set
      [250, 10, 4, 40, 16, 160, 2, 20, 0, 0, 4, 40, 0, 1, 0, 0, 5, 168, 248] = Inr (Some data) \<and>
     rs_i data = 1 \<and> rs_u data = 4 \<and> rs_c data = 500 \<and> rs_unknown data = 0 \<and>
     rs_p1 data = 1000 \<and> rs_p2 data = 1 \<and> rs_p3 data = 0"
  using decode_scaling [OF frame_a_valid, of 1000 4000 500] by auto

section \<open>State and parameter checks of the command layer\<close>

lemmas charge_defs =
  charge_nimh_def charge_nicd_def charge_liion_def charge_life_def charge_vrla_def charge_cv_def

lemma wrong_state_no_op:
  assumes "\<not> device_state zk = DS_monitoring"
  shows "discharge_cc zk x y d = (logging [Warning_wrong_state] zk, Inr ())"
    and "discharge_cp zk x y d = (logging [Warning_wrong_state] zk, Inr ())"
    and "charge_generic zk rc x n d = (logging [Warning_wrong_state] zk, Inr ())"
    and "measure_resistance zk m buff = (logging [Warning_wrong_state] zk, Inr None)"
    and "calibrate_voltage zk x level = (logging [Warning_wrong_state] zk, Inr ())"
  using assms
  by (simp_all add: discharge_cc_def discharge_cp_def charge_generic_def
      measure_resistance_def calibrate_voltage_def)

lemma wrong_state_no_op_current:
  assumes "\<not> (device_state zk = DS_testing \<and> prog_state zk = Some PS_d_cc)"
  shows "calibrate_current zk x level = (logging [Warning_wrong_state] zk, Inr ())"
  using assms by (auto simp add: calibrate_current_def)

lemma discharge_raises:
  assumes "device_state zk = DS_monitoring" "x < 0 \<or> y < 0 \<or> d < 0 \<or> 999 < d"
  shows "\<exists>e. discharge_cc zk x y d = (zk, Inl e)"
    and "\<exists>e. discharge_cp zk x y d = (zk, Inl e)"
  using assms by (auto simp add: discharge_cc_def discharge_cp_def)

lemma charge_raises:
  assumes "device_state zk = DS_monitoring" "x < 0 \<or> n < 1 \<or> d < 0 \<or> 999 < d"
  shows "\<exists>e. charge_generic zk rc x n d = (zk, Inl e)"
  using assms by (auto simp add: charge_generic_def)

lemma measure_raises:
  assumes "device_state zk = DS_monitoring" "m < 0 \<or> 30000 < m"
  shows "\<exists>e. measure_resistance zk m buff = (zk, Inl e)"
  using assms by (auto simp add: measure_resistance_def)

lemma calibrate_voltage_raises:
  assumes "device_state zk = DS_monitoring" "x < 0 \<or> \<not> (level = ''lower'' \<or> level = ''upper'')"
  shows "\<exists>e. calibrate_voltage zk x level = (zk, Inl e)"
  using assms by (auto simp add: calibrate_voltage_def)

lemma calibrate_current_raises:
  assumes "device_state zk = DS_testing" "prog_state zk = Some PS_d_cc"
    "x < 0 \<or> \<not> (level = ''lower'' \<or> level = ''upper'')"
  shows "\<exists>e. calibrate_current zk x level = (zk, Inl e)"
  using assms by (auto simp add: calibrate_current_def)

text \<open>
  Claim C2, as the code has it. Every operation that takes parameters tests the session
  state first. When the required state is not met (monitoring; for the calibration of the
  current, testing with program d_cc), the operation logs a warning, changes nothing
  else, writes nothing and returns without raising, whatever its parameters. When it is
  met and a parameter is out of range (a negative current, power or voltage, a duration
  below 0 or above 999, fewer than one cell, a resistance current outside 0..30000, a
  level other than lower or upper), the operation raises an exception and leaves the
  session and the transport untouched.
\<close>

theorem state_check_before_parameters:
  "(\<not> device_state zk = DS_monitoring \<longrightarrow>
      discharge_cc zk x y d = (logging [Warning_wrong_state] zk, Inr ()) \<and>
      discharge_cp zk x y d = (logging [Warning_wrong_state] zk, Inr ()) \<and>
      charge_nimh zk x n d = (logging [Warning_wrong_state] zk, Inr ()) \<and>
      charge_nicd zk x n d = (logging [Warning_wrong_state] zk, Inr ()) \<and>
      charge_liion zk x n d = (logging [Warning_wrong_state] zk, Inr ()) \<and>
      charge_life zk x n d = (logging [Warning_wrong_state] zk, Inr ()) \<and>
      charge_vrla zk x n d = (logging [Warning_wrong_state] zk, Inr ()) \<and>
      charge_cv zk x n d = (logging [Warning_wrong_state] zk, Inr ()) \<and>
      measure_resistance zk m buff = (logging [Warning_wrong_state] zk, Inr None) \<and>
      calibrate_voltage zk x level = (logging [Warning_wrong_state] zk, Inr ())) \<and>
   (\<not> (device_state zk = DS_testing \<and> prog_state zk = Some PS_d_cc) \<longrightarrow>
      calibrate_current zk x level = (logging [Warning_wrong_state] zk, Inr ())) \<and>
   (device_state zk = DS_monitoring \<and> (x < 0 \<or> y < 0 \<or> d < 0 \<or> 999 < d) \<longrightarrow>
      (\<exists>e. discharge_cc zk x y d = (zk, Inl e)) \<and>
      (\<exists>e. discharge_cp zk x y d = (zk, Inl e))) \<and>
   (device_state zk = DS_monitoring \<and> (x < 0 \<or> n < 1 \<or> d < 0 \<or> 999 < d) \<longrightarrow>
      (\<exists>e. charge_nimh zk x n d = (zk, Inl e)) \<and>
      (\<exists>e. charge_nicd zk x n d = (zk, Inl e)) \<and>
      (\<exists>e. charge_liion zk x n d = (zk, Inl e)) \<and>
      (\<exists>e. charge_life zk x n d = (zk, Inl e)) \<and>
      (\<exists>e. charge_vrla zk x n d = (zk, Inl e)) \<and>
      (\<exists>e. charge_cv zk x n d = (zk, Inl e))) \<and>
   (device_state zk = DS_monitoring \<and> (m < 0 \<or> 30000 < m) \<longrightarrow>
      (\<exists>e. measure_resistance zk m buff = (zk, Inl e))) \<and>
   (device_state zk = DS_monitoring \<and>
      (x < 0 \<or> \<not> (level = ''lower'' \<or> level = ''upper'')) \<longrightarrow>
      (\<exists>e. calibrate_voltage zk x level = (zk, Inl e))) \<and>
   (device_state zk = DS_testing \<and> prog_state zk = Some PS_d_cc \<and>
      (x < 0 \<or> \<not> (level = ''lower'' \<or> level = ''upper'')) \<longrightarrow>
      (\<exists>e. calibrate_current zk x level = (zk, Inl e)))"
proof -
  have a: "\<not> device_state zk = DS_monitoring \<longrightarrow>
      discharge_cc zk x y d = (logging [Warning_wrong_state] zk, Inr ()) \<and>
      discharge_cp zk x y d = (logging [Warning_wrong_state] zk, Inr ()) \<and>
      charge_nimh zk x n d = (logging [Warning_wrong_state] zk, Inr ()) \<and>
      charge_nicd zk x n d = (logging [Warning_wrong_state] zk, Inr ()) \<and>
      charge_liion zk x n d = (logging [Warning_wrong_state] zk, Inr ()) \<and>
      charge_life zk x n d = (logging [Warning_wrong_state] zk, Inr ()) \<and>
      charge_vrla zk x n d = (logging [Warning_wrong_state] zk, Inr ()) \<and>
      charge_cv zk x n d = (logging [Warning_wrong_state] zk, Inr ()) \<and>
      measure_resistance zk m buff = (logging [Warning_wrong_state] zk, Inr None) \<and>
      calibrate_voltage zk x level = (logging [Warning_wrong_state] zk, Inr ())"
    unfolding charge_defs by (simp add: wrong_state_no_op)
  have b: "\<not> (device_state zk = DS_testing \<and> prog_state zk = Some PS_d_cc) \<longrightarrow>
      calibrate_current zk x level = (logging [Warning_wrong_state] zk, Inr ())"
    using wrong_state_no_op_current[of zk x level] by blast
  have c: "device_state zk = DS_monitoring \<and> (x < 0 \<or> y < 0 \<or> d < 0 \<or> 999 < d) \<longrightarrow>
      (\<exists>e. discharge_cc zk x y d = (zk, Inl e)) \<and>
      (\<exists>e. discharge_cp zk x y d = (zk, Inl e))"
    using discharge_raises[of zk x y d] by blast
  have d: "device_state zk = DS_monitoring \<and> (x < 0 \<or> n < 1 \<or> d < 0 \<or> 999 < d) \<longrightarrow>
      (\<exists>e. charge_nimh zk x n d = (zk, Inl e)) \<and>
      (\<exists>e. charge_nicd zk x n d = (zk, Inl e)) \<and>
      (\<exists>e. charge_liion zk x n d = (zk, Inl e)) \<and>
      (\<exists>e. charge_life zk x n d = (zk, Inl e)) \<and>
      (\<exists>e. charge_vrla zk x n d = (zk, Inl e)) \<and>
      (\<exists>e. charge_cv zk x n d = (zk, Inl e))"
    unfolding charge_defs using charge_raises[of zk x n d] by blast
  have e: "device_state zk = DS_monitoring \<and> (m < 0 \<or> 30000 < m) \<longrightarrow>
      (\<exists>e. measure_resistance zk m buff = (zk, Inl e))"
    using measure_raises[of zk m buff] by blast
  have f: "device_state zk = DS_monitoring \<and>
      (x < 0 \<or> \<not> (level = ''lower'' \<or> level = ''upper'')) \<longrightarrow>
      (\<exists>e. calibrate_voltage zk x level = (zk, Inl e))"
    using calibrate_voltage_raises[of zk x level] by blast
  have g: "device_state zk = DS_testing \<and> prog_state zk = Some PS_d_cc \<and>
      (x < 0 \<or> \<not> (level = ''lower'' \<or> level = ''upper'')) \<longrightarrow>
      (\<exists>e. calibrate_current zk x level = (zk, Inl e))"
    using calibrate_current_raises[of zk x level] by blast
  show ?thesis
    by (intro conjI a b c d e f g)
qed

theorem state_check_before_parameters_witness:
  "discharge_cc \<lparr>is_open = True, device_state = DS_idle, prog_state = None,
       part_number = None, written = [], logged = []\<rparr> (- 1) 3 1000 =
     (\<lparr>is_open = True, device_state = DS_idle, prog_state = None,
       part_number = None, written = [], logged = [Warning_wrong_state]\<rparr>, Inr ()) \<and>
   (\<exists>e. discharge_cc \<lparr>is_open = True, device_state = DS_monitoring, prog_state = None,
       part_number = None, written = [], logged = []\<rparr> (- 1) 3 1000 =
     (\<lparr>is_open = True, device_state = DS_monitoring, prog_state = None,
       part_number = None, written = [], logged = []\<rparr>, Inl e)) \<and>
   (\<exists>e. charge_liion \<lparr>is_open = True, device_state = DS_monitoring, prog_state = None,
       part_number = None, written = [], logged = []\<rparr> 1 0 10 =
     (\<lparr>is_open = True, device_state = DS_monitoring, prog_state = None,
       part_number = None, written = [], logged = []\<rparr>, Inl e)) \<and>
   (\<exists>e. calibrate_current \<lparr>is_open = True, device_state = DS_testing,
       prog_state = Some PS_d_cc, part_number = None, written = [], logged = []\<rparr> 1 ''middle'' =
     (\<lparr>is_open = True, device_state = DS_testing, prog_state = Some PS_d_cc,
       part_number = None, written = [], logged = []\<rparr>, Inl e))"
  using state_check_before_parameters [of "\<lparr>is_open = True, device_state = DS_idle,
       prog_state = None, part_number = None, written = [], logged = []\<rparr>" "- 1" 3 1000]
    state_check_before_parameters [of "\<lparr>is_open = True, device_state = DS_monitoring,
       prog_state = None, part_number = None, written = [], logged = []\<rparr>" "- 1" 3 1000]
    state_check_before_parameters [of "\<lparr>is_open = True, device_state = DS_monitoring,
       prog_state = None, part_number = None, written = [], logged = []\<rparr>" 1 _ 10 0]
    state_check_before_parameters [of "\<lparr>is_open = True, device_state = DS_testing,
       prog_state = Some PS_d_cc, part_number = None, written = [], logged = []\<rparr>" 1 _ _ _ _ _
       "''middle''"]
  by (simp add: logging_def)

text \<open>
  The claim as stated fails: in state idle a constant-current discharge with the current
  -1 A returns normally, and no error reaches the caller.
\<close>

theorem state_check_before_parameters_counterexample:
  "snd (discharge_cc \<lparr>is_open = True, device_state = DS_idle, prog_state = None,
       part_number = None, written = [], logged = []\<rparr> (- 1) 3 1000) = Inr ()"
  by (simp add: discharge_cc_def)

section \<open>Rounding to a double\<close>

lemma rne_err: "\<bar>of_int (rne y) - y\<bar> \<le> 1 / 2"
proof -
  have "of_int \<lfloor>y\<rfloor> \<le> y" "y < of_int \<lfloor>y\<rfloor> + 1" by linarith+
  then show ?thesis
    unfolding rne_def Let_def by (auto simp add: abs_le_iff) 
qed

lemma rne_nonneg: "0 \<le> y \<Longrightarrow> 0 \<le> rne y"
proof -
  assume "0 \<le> y"
  then have "0 \<le> \<lfloor>y\<rfloor>" by simp
  then show ?thesis unfolding rne_def Let_def by auto
qed

lemma expo_le:
  assumes "0 < x"
  shows "2 powi expo x \<le> x"
proof -
  obtain a b where ab: "quotient_of x = (a, b)" by (cases "quotient_of x")
  have b: "0 < b" using quotient_of_denom_pos[OF ab] .
  have x: "x = of_int a / of_int b" using quotient_of_div[OF ab] .
  have a: "0 < a" using assms b x by (simp add: zero_less_divide_iff)
  let ?e0 = "bitlen a - bitlen b"
  show ?thesis
  proof (cases "2 powi ?e0 \<le> x")
    case True
    then show ?thesis by (simp add: expo_def ab Let_def)
  next
    case False
    have e: "expo x = ?e0 - 1" using False by (simp add: expo_def ab Let_def)
    have la: "1 \<le> bitlen a" using a bitlen_eq_zero_iff[of a] bitlen_nonneg[of a] by linarith
    have ba: "(2::int) ^ nat (bitlen a - 1) \<le> a" using bitlen_bounds[OF a] by simp
    have bb: "b < (2::int) ^ nat (bitlen b)" using bitlen_bounds[OF b] by simp
    have ra: "(2::rat) ^ nat (bitlen a - 1) \<le> of_int a"
      using ba by (metis of_int_le_iff of_int_numeral of_int_power)
    have rb: "of_int b \<le> (2::rat) ^ nat (bitlen b)"
      using bb by (metis less_imp_le of_int_le_iff of_int_numeral of_int_power)
    have p: "(2::rat) powi (?e0 - 1) = 2 ^ nat (bitlen a - 1) / 2 ^ nat (bitlen b)"
    proof -
      have "(2::rat) powi (?e0 - 1) = 2 powi ((bitlen a - 1) - bitlen b)" by (simp add: algebra_simps)
      also have "\<dots> = 2 powi (bitlen a - 1) / 2 powi (bitlen b)"
        by (rule power_int_diff) simp
      also have "\<dots> = 2 ^ nat (bitlen a - 1) / 2 ^ nat (bitlen b)"
        using la bitlen_nonneg[of b] by (simp add: power_int_def)
      finally show ?thesis .
    qed
    have "(2::rat) ^ nat (bitlen a - 1) / 2 ^ nat (bitlen b) \<le> of_int a / of_int b"
      using ra rb b a by (intro frac_le) simp_all
    then show ?thesis using e p x by simp
  qed
qed

lemma fl_nonneg: "0 \<le> x \<Longrightarrow> 0 \<le> fl x"
proof (cases "x = 0")
  case True
  then show ?thesis by (simp add: fl_def)
next
  case False
  assume "0 \<le> x"
  with False have x: "0 < x" by simp
  let ?q = "max (expo \<bar>x\<bar> - 52) (- 1074)"
  have "0 \<le> \<bar>x\<bar> / 2 powi ?q" by simp
  then have "0 \<le> rne (\<bar>x\<bar> / 2 powi ?q)" by (rule rne_nonneg)
  then show ?thesis using x by (simp add: fl_def Let_def)
qed

lemma fl_err:
  assumes "2 powi (- 1022) \<le> x"
  shows "\<bar>fl x - x\<bar> \<le> x / 2 ^ 53"
proof -
  have x: "0 < x" using assms by (smt (verit) zero_less_power_int zero_less_numeral less_le_trans)
  let ?q = "max (expo \<bar>x\<bar> - 52) (- 1074)"
  let ?s = "(2::rat) powi ?q"
  let ?m = "rne (x / ?s)"
  have s: "0 < ?s" by simp
  have f: "fl x = of_int ?m * ?s" using x by (simp add: fl_def Let_def)
  have sq: "?s \<le> x / 2 ^ 52"
  proof (cases "expo \<bar>x\<bar> - 52 \<le> - 1074")
    case True
    then have "?q = - 1074" by simp
    moreover have "(2::rat) powi (- 1074) = 2 powi (- 1022) / 2 ^ 52"
    proof -
      have "(2::rat) powi (- 1074) = 2 powi (- 1022 - 52)" by simp
      also have "\<dots> = 2 powi (- 1022) / 2 powi 52"
        by (rule power_int_diff) simp
      finally show ?thesis by simp
    qed
    ultimately show ?thesis using assms by (simp add: divide_right_mono)
  next
    case False
    then have q: "?q = expo x - 52" using x by simp
    have "(2::rat) powi (expo x - 52) = 2 powi (expo x) / 2 powi 52"
      by (rule power_int_diff) simp
    then have "(2::rat) powi (expo x - 52) = 2 powi (expo x) / 2 ^ 52" by simp
    then show ?thesis using expo_le[OF x] q by (simp add: divide_right_mono)
  qed
  have "fl x - x = (of_int ?m - x / ?s) * ?s" using s f by (simp add: algebra_simps)
  then have "\<bar>fl x - x\<bar> = \<bar>of_int ?m - x / ?s\<bar> * ?s" using s by (simp add: abs_mult)
  also have "\<dots> \<le> (1 / 2) * ?s"
    using rne_err[of "x / ?s"] s by (intro mult_right_mono) simp_all
  also have "\<dots> \<le> (1 / 2) * (x / 2 ^ 52)" using sq by simp
  also have "\<dots> = x / 2 ^ 53" by simp
  finally show ?thesis .
qed

lemma fl_bounds:
  assumes "2 powi (- 1022) \<le> x"
  shows "x / 2 \<le> fl x" and "fl x \<le> 2 * x"
proof -
  have x: "0 < x" using assms by (smt (verit) zero_less_power_int zero_less_numeral less_le_trans)
  have "x / 2 ^ 53 \<le> x / 2" using x by (simp add: field_simps)
  with fl_err[OF assms] have e: "\<bar>fl x - x\<bar> \<le> x / 2" by linarith
  show "x / 2 \<le> fl x" using e by linarith
  show "fl x \<le> 2 * x" using e x by linarith
qed

lemma fl_0: "fl 0 = 0"
  by (simp add: fl_def)

lemma tiny_le: "(2::rat) powi (- 1022) \<le> 1 / 1000"
proof -
  have "(2::rat) powi (- 1022) = inverse (2 ^ 1022)"
    using power_int_minus[of "2::rat" 1022] by simp
  also have "\<dots> \<le> 1 / 1000" by (simp add: field_simps)
  finally show ?thesis .
qed

lemma float_int_nonneg: "0 \<le> x \<Longrightarrow> x < 2 ^ 1024 \<Longrightarrow> float_int x = Inr \<lfloor>x\<rfloor>"
  by (simp add: float_int_def py_int_def)

lemma float_int_finite: "0 \<le> x \<Longrightarrow> x < 2 ^ 1024 \<Longrightarrow> float_int x = Inr (py_int x)"
  by (simp add: float_int_def)

lemma resistance_quotient:
  assumes "0 \<le> c" "c \<le> 61455" "1 \<le> n" "n \<le> (30000::int)"
  shows "0 < fl (of_int n / 1000)"
    and "0 \<le> fl (of_int c / fl (of_int n / 1000))"
    and "fl (of_int c / fl (of_int n / 1000)) < 2 ^ 1024"
proof -
  let ?x = "of_int n / 1000 :: rat"
  let ?d = "fl ?x"
  let ?y = "of_int c / ?d"
  have x1: "1 / 1000 \<le> ?x" using assms(3) by simp
  have x2: "?x \<le> 30" using assms(4) by simp
  have xt: "2 powi (- 1022) \<le> ?x" using tiny_le x1 by linarith
  have d1: "1 / 2000 \<le> ?d" using fl_bounds(1)[OF xt] x1 by linarith
  have d2: "?d \<le> 60" using fl_bounds(2)[OF xt] x2 by linarith
  show d0: "0 < ?d" using d1 by linarith
  have y0: "0 \<le> ?y" using assms(1) d0 by simp
  show "0 \<le> fl ?y" using y0 by (rule fl_nonneg)
  show "fl ?y < 2 ^ 1024"
  proof (cases "c = 0")
    case True
    then show ?thesis by (simp add: fl_0)
  next
    case False
    with assms(1) have c1: "(1::rat) \<le> of_int c" by linarith
    have "1 / 60 \<le> 1 / ?d" using d2 d0 by (intro divide_left_mono) simp_all
    also have "\<dots> \<le> ?y" using c1 d0 by (intro divide_right_mono) simp_all
    finally have yl: "1 / 60 \<le> ?y" .
    have yt: "2 powi (- 1022) \<le> ?y" using tiny_le yl by linarith
    have "?y \<le> of_int c / (1 / 2000)"
      using d1 assms(1) by (intro divide_left_mono) simp_all
    also have "\<dots> = 2000 * of_int c" by simp
    also have "\<dots> \<le> 2000 * 61455" using assms(2) by simp
    finally have yu: "?y \<le> 122910000" by simp
    have "fl ?y \<le> 2 * ?y" using fl_bounds(2)[OF yt] .
    also have "\<dots> \<le> 245820000" using yu by simp
    also have "\<dots> < 2 ^ 1024" by simp
    finally show ?thesis .
  qed
qed

section \<open>Sending requests and measuring the resistance\<close>

lemma send_request_ok:
  assumes "is_open zk" "0 \<le> p1" "p1 \<le> 57600" "0 \<le> p2" "p2 \<le> 57600" "0 \<le> p3" "p3 \<le> 57600"
  shows "send_request zk rc p1 p2 p3 =
           (logging [Debug_sent_request, Debug_sent_buffer (request_frame rc p1 p2 p3)]
              (zk\<lparr>written := written zk @ [request_frame rc p1 p2 p3]\<rparr>), Inr ())"
proof -
  from get_buffer_layout[OF assms(2-7), of rc] obtain data where
    d: "RequestDataSet_init rc p1 p2 p3 = Inr data"
       "get_buffer data = Inr (request_frame rc p1 p2 p3)"
    by blast
  show ?thesis
    using assms(1) by (simp add: send_request_def d)
qed

lemma measure_resistance_run:
  assumes "device_state zk = DS_monitoring" "is_open zk" "0 \<le> current" "current \<le> 30000"
  shows "\<exists>zk1. is_open zk1 \<and>
           measure_resistance zk current buff =
             (case read_response zk1 buff of
                (zk2, Inl e) \<Rightarrow> (zk2, Inl e)
              | (zk2, Inr None) \<Rightarrow> (logging [Debug_no_response] zk2, Inr None)
              | (zk2, Inr (Some res)) \<Rightarrow>
                  if fl (of_int current / 1000) = 0 then (zk2, Inl ZeroDivisionError)
                  else
                    (case float_int (fl (of_int (rs_c res) / fl (of_int current / 1000))) of
                       Inl e \<Rightarrow> (zk2, Inl e)
                     | Inr r \<Rightarrow> (zk2, Inr (Some r))))"
proof -
  let ?zk0 = "logging [Debug_sending_request mes_resistance current 0 0] zk"
  let ?zk1 = "logging [Debug_sent_request, Debug_sent_buffer (request_frame mes_resistance current 0 0)]
              (?zk0\<lparr>written := written ?zk0 @ [request_frame mes_resistance current 0 0]\<rparr>)"
  have o: "is_open ?zk0" using assms(2) by (simp add: logging_def)
  have s: "send_request ?zk0 mes_resistance current 0 0 = (?zk1, Inr ())"
    using send_request_ok[OF o, of current 0 0 mes_resistance] assms(3,4) by simp
  have o1: "is_open ?zk1" using assms(2) by (simp add: logging_def)
  have "measure_resistance zk current buff =
             (case read_response ?zk1 buff of
                (zk2, Inl e) \<Rightarrow> (zk2, Inl e)
              | (zk2, Inr None) \<Rightarrow> (logging [Debug_no_response] zk2, Inr None)
              | (zk2, Inr (Some res)) \<Rightarrow>
                  if fl (of_int current / 1000) = 0 then (zk2, Inl ZeroDivisionError)
                  else
                    (case float_int (fl (of_int (rs_c res) / fl (of_int current / 1000))) of
                       Inl e \<Rightarrow> (zk2, Inl e)
                     | Inr r \<Rightarrow> (zk2, Inr (Some r))))"
    using assms o1 unfolding measure_resistance_def Let_def s
    by (simp add: reset_input_buffer_def)
  with o1 show ?thesis by blast
qed

text \<open>
  Claim C10. A current of 0 mA passes the two range tests of \<open>measure_resistance\<close>; in
  state monitoring on an open port, once a valid 19-byte response is read, the quotient
  \<open>res.c / (p1 / 1000)\<close> divides by zero and the call ends with ZeroDivisionError.
\<close>

theorem measure_resistance_zero_current:
  assumes "device_state zk = DS_monitoring" "is_open zk"
    "check_buffer_validity buff" "length buff = 19"
  shows "snd (measure_resistance zk 0 buff) = Inl ZeroDivisionError"
proof -
  from measure_resistance_run[OF assms(1,2), of 0 buff] obtain zk1 where
    z: "is_open zk1" and
    m: "measure_resistance zk 0 buff =
             (case read_response zk1 buff of
                (zk2, Inl e) \<Rightarrow> (zk2, Inl e)
              | (zk2, Inr None) \<Rightarrow> (logging [Debug_no_response] zk2, Inr None)
              | (zk2, Inr (Some res)) \<Rightarrow>
                  (zk2, Inl ZeroDivisionError))"
    by (auto simp add: fl_0)
  from read_response_valid19[OF z assms(3,4)] obtain zk2 data where
    "read_response zk1 buff = (zk2, Inr (Some data))" by blast
  with m show ?thesis by simp
qed

lemma frame_b_valid:
  "check_buffer_validity [250, 0, 0, 0, 0, 0, 2, 20, 0, 0, 0, 0, 0, 0, 0, 0, 5, 19, 248]"
  by (simp add: check_buffer_validity_def buffer_defect_def payload_def zketech_checksum_def
      BEGIN_MARKER_def END_MARKER_def StateCode_of_def ProgCode_of_def PartNumber_of_def)

theorem measure_resistance_zero_current_witness:
  "snd (measure_resistance
      \<lparr>is_open = True, device_state = DS_monitoring, prog_state = Some PS_d_cc,
       part_number = Some ebc_a05, written = [], logged = []\<rparr> 0
      [250, 0, 0, 0, 0, 0, 2, 20, 0, 0, 0, 0, 0, 0, 0, 0, 5, 19, 248]) = Inl ZeroDivisionError"
  using measure_resistance_zero_current [of "\<lparr>is_open = True, device_state = DS_monitoring,
       prog_state = Some PS_d_cc, part_number = Some ebc_a05, written = [], logged = []\<rparr>"
      "[250, 0, 0, 0, 0, 0, 2, 20, 0, 0, 0, 0, 0, 0, 0, 0, 5, 19, 248]"] frame_b_valid
  by simp

lemma capacity_range:
  assumes "list_all (\<lambda>b. 0 \<le> b \<and> b \<le> 255) buff" "length buff = 19"
  shows "0 \<le> buff ! 6 * 240 + buff ! 7" and "buff ! 6 * 240 + buff ! 7 \<le> (61455::int)"
proof -
  have "0 \<le> buff ! 6 \<and> buff ! 6 \<le> 255" "0 \<le> buff ! 7 \<and> buff ! 7 \<le> 255"
    using assms by (simp_all add: list_all_length)
  then show "0 \<le> buff ! 6 * 240 + buff ! 7" and "buff ! 6 * 240 + buff ! 7 \<le> (61455::int)"
    by simp_all
qed

lemma measure_resistance_returns:
  assumes "device_state zk = DS_monitoring" "is_open zk" "0 \<le> current" "current \<le> 30000"
  shows "(check_buffer_validity buff \<and> length buff = 19 \<and>
          list_all (\<lambda>b. 0 \<le> b \<and> b \<le> 255) buff \<and> 1 \<le> current \<longrightarrow>
            snd (measure_resistance zk current buff) =
              Inr (Some (py_int (fl (of_int (buff ! 6 * 240 + buff ! 7) /
                                     fl (of_int current / 1000)))))) \<and>
         (buff = [] \<or> \<not> check_buffer_validity buff \<longrightarrow>
            snd (measure_resistance zk current buff) = Inr None)"
proof -
  from measure_resistance_run[OF assms, of buff] obtain zk1 where
    z: "is_open zk1" and
    m: "measure_resistance zk current buff =
             (case read_response zk1 buff of
                (zk2, Inl e) \<Rightarrow> (zk2, Inl e)
              | (zk2, Inr None) \<Rightarrow> (logging [Debug_no_response] zk2, Inr None)
              | (zk2, Inr (Some res)) \<Rightarrow>
                  if fl (of_int current / 1000) = 0 then (zk2, Inl ZeroDivisionError)
                  else
                    (case float_int (fl (of_int (rs_c res) / fl (of_int current / 1000))) of
                       Inl e \<Rightarrow> (zk2, Inl e)
                     | Inr r \<Rightarrow> (zk2, Inr (Some r))))"
    by auto
  have a: "snd (measure_resistance zk current buff) =
              Inr (Some (py_int (fl (of_int (buff ! 6 * 240 + buff ! 7) /
                                     fl (of_int current / 1000)))))"
    if v: "check_buffer_validity buff" and l: "length buff = 19"
      and b: "list_all (\<lambda>b. 0 \<le> b \<and> b \<le> 255) buff" and c: "1 \<le> current"
  proof -
    let ?c = "buff ! 6 * 240 + buff ! 7"
    from decode_valid19[OF v l] obtain data where
      g: "get_response_data_set buff = Inr (Some data)" and
      rc: "rs_c data = ?c"
      by auto
    from read_response_valid19[OF z v l] g obtain zk2 where
      r: "read_response zk1 buff = (zk2, Inr (Some data))" by auto
    note q = resistance_quotient[OF capacity_range[OF b l] c assms(4)]
    have d: "\<not> fl (of_int current / 1000) = 0" using q(1) by simp
    have f: "float_int (fl (of_int ?c / fl (of_int current / 1000))) =
               Inr (py_int (fl (of_int ?c / fl (of_int current / 1000))))"
      using float_int_finite[OF q(2,3)] .
    show ?thesis
      unfolding m r using d f rc by simp
  qed
  have b: "snd (measure_resistance zk current buff) = Inr None"
    if n: "buff = [] \<or> \<not> check_buffer_validity buff"
  proof -
    have "\<exists>zk2. read_response zk1 buff = (zk2, Inr None)"
      using z n by (auto simp add: read_response_def Let_def)
    with m show ?thesis by auto
  qed
  show ?thesis using a b by blast
qed

text \<open>
  Claim C9, as the code has it. In state monitoring on an open port, with a current between
  1 and 30000 mA, a valid 19-byte response of bytes makes \<open>measure_resistance\<close> return
  \<open>int(capacity / (current / 1000))\<close>: the capacity of the response divided by the double
  \<open>current / 1000\<close>, the quotient rounded to a double and truncated towards zero. With a
  current between 0 and 30000 mA, an empty read or an invalid buffer makes it return
  \<open>None\<close>, without raising.
\<close>

theorem measure_resistance_result:
  assumes "device_state zk = DS_monitoring" "is_open zk" "0 \<le> current" "current \<le> 30000"
  shows "(check_buffer_validity buff \<and> length buff = 19 \<and>
          list_all (\<lambda>b. 0 \<le> b \<and> b \<le> 255) buff \<and> 1 \<le> current \<longrightarrow>
            snd (measure_resistance zk current buff) =
              Inr (Some (py_int (fl (of_int (buff ! 6 * 240 + buff ! 7) /
                                     fl (of_int current / 1000)))))) \<and>
         (buff = [] \<or> \<not> check_buffer_validity buff \<longrightarrow>
            snd (measure_resistance zk current buff) = Inr None)"
  using measure_resistance_returns[OF assms] by blast

lemma frame_c_valid:
  "check_buffer_validity [250, 0, 0, 0, 0, 0, 0, 7, 0, 0, 0, 0, 0, 0, 0, 0, 5, 2, 248]"
  by (simp add: check_buffer_validity_def buffer_defect_def payload_def zketech_checksum_def
      BEGIN_MARKER_def END_MARKER_def StateCode_of_def ProgCode_of_def PartNumber_of_def)

lemma quotient_500_1000: "py_int (fl (of_int (2 * 240 + 20) / fl (of_int 1000 / 1000))) = 500"
  unfolding py_int_def by code_simp

lemma quotient_7_140: "py_int (fl (of_int (0 * 240 + 7) / fl (of_int 140 / 1000))) = 49"
  unfolding py_int_def by code_simp

lemma quotient_500_3000: "py_int (fl (of_int (2 * 240 + 20) / fl (of_int 3000 / 1000))) = 166"
  unfolding py_int_def by code_simp


theorem measure_resistance_result_witness:
  "snd (measure_resistance
      \<lparr>is_open = True, device_state = DS_monitoring, prog_state = Some PS_d_cc,
       part_number = Some ebc_a05, written = [], logged = []\<rparr> 1000
      [250, 0, 0, 0, 0, 0, 2, 20, 0, 0, 0, 0, 0, 0, 0, 0, 5, 19, 248]) = Inr (Some 500) \<and>
   snd (measure_resistance
      \<lparr>is_open = True, device_state = DS_monitoring, prog_state = Some PS_d_cc,
       part_number = Some ebc_a05, written = [], logged = []\<rparr> 140
      [250, 0, 0, 0, 0, 0, 0, 7, 0, 0, 0, 0, 0, 0, 0, 0, 5, 2, 248]) = Inr (Some 49) \<and>
   snd (measure_resistance
      \<lparr>is_open = True, device_state = DS_monitoring, prog_state = Some PS_d_cc,
       part_number = Some ebc_a05, written = [], logged = []\<rparr> 1000 []) = Inr None"
  using measure_resistance_result [of "\<lparr>is_open = True, device_state = DS_monitoring,
       prog_state = Some PS_d_cc, part_number = Some ebc_a05, written = [], logged = []\<rparr>"
      1000 "[250, 0, 0, 0, 0, 0, 2, 20, 0, 0, 0, 0, 0, 0, 0, 0, 5, 19, 248]"]
    measure_resistance_result [of "\<lparr>is_open = True, device_state = DS_monitoring,
       prog_state = Some PS_d_cc, part_number = Some ebc_a05, written = [], logged = []\<rparr>"
      140 "[250, 0, 0, 0, 0, 0, 0, 7, 0, 0, 0, 0, 0, 0, 0, 0, 5, 2, 248]"]
    measure_resistance_result [of "\<lparr>is_open = True, device_state = DS_monitoring,
       prog_state = Some PS_d_cc, part_number = Some ebc_a05, written = [], logged = []\<rparr>"
      1000 "[]"] frame_b_valid frame_c_valid quotient_500_1000 quotient_7_140
  by simp

text \<open>
  The claim as stated fails: 3000 mA requested and a capacity of 500 echoed give 166, not
  the quotient 500 / 3.
\<close>

theorem measure_resistance_result_counterexample:
  "snd (measure_resistance
      \<lparr>is_open = True, device_state = DS_monitoring, prog_state = Some PS_d_cc,
       part_number = Some ebc_a05, written = [], logged = []\<rparr> 3000
      [250, 0, 0, 0, 0, 0, 2, 20, 0, 0, 0, 0, 0, 0, 0, 0, 5, 19, 248]) = Inr (Some 166) \<and>
   \<not> (of_int 166 :: rat) = of_int (2 * 240 + 20) / (of_int 3000 / 1000)"
  using measure_resistance_returns [of "\<lparr>is_open = True, device_state = DS_monitoring,
       prog_state = Some PS_d_cc, part_number = Some ebc_a05, written = [], logged = []\<rparr>"
      3000 "[250, 0, 0, 0, 0, 0, 2, 20, 0, 0, 0, 0, 0, 0, 0, 0, 5, 19, 248]"]
    frame_b_valid quotient_500_3000
  by simp

section \<open>Calibration\<close>

lemma send_request_logged:
  "\<exists>ys. logged (fst (send_request zk rc p1 p2 p3)) = logged zk @ ys"
  by (auto simp add: send_request_def logging_def split: sum.splits)

lemma calibrate_p2_range: "0 \<le> (r::int) mod 240 * 240 \<and> r mod 240 * 240 \<le> 57600"
proof -
  have "0 \<le> r mod 240" "r mod 240 < 240" by simp_all
  then show ?thesis by simp
qed

lemma product_int:
  assumes "0 \<le> v" "fl (v * 1000) < 2 ^ 1024"
  shows "float_int (fl (v * 1000)) = Inr \<lfloor>fl (v * 1000)\<rfloor>" and "0 \<le> \<lfloor>fl (v * 1000)\<rfloor>"
proof -
  have n: "0 \<le> fl (v * 1000)" using assms(1) by (intro fl_nonneg) simp
  show "float_int (fl (v * 1000)) = Inr \<lfloor>fl (v * 1000)\<rfloor>"
    using float_int_nonneg[OF n assms(2)] .
  show "0 \<le> \<lfloor>fl (v * 1000)\<rfloor>" using n by simp
qed

lemma calibrate_voltage_unfold:
  assumes "device_state zk = DS_monitoring" "0 \<le> v" "fl (v * 1000) < 2 ^ 1024"
    "level = ''lower'' \<or> level = ''upper''"
  shows "calibrate_voltage zk v level =
     (case send_request
             (logging [Debug_sending_request calibrate
                (\<lfloor>fl (v * 1000)\<rfloor> div 240 + 240 * (if level = ''lower'' then 0 else 1))
                (\<lfloor>fl (v * 1000)\<rfloor> mod 240 * 240) 0] zk)
             calibrate
             (\<lfloor>fl (v * 1000)\<rfloor> div 240 + 240 * (if level = ''lower'' then 0 else 1))
             (\<lfloor>fl (v * 1000)\<rfloor> mod 240 * 240) 0 of
        (zk1, Inl e) \<Rightarrow> (zk1, Inl e)
      | (zk1, Inr _) \<Rightarrow> (zk1, reset_input_buffer zk1))"
proof -
  have nn: "\<not> v < 0" using assms(2) by simp
  show ?thesis
    using assms(1,4) nn
    by (auto simp add: calibrate_voltage_def Let_def product_int(1)[OF assms(2,3)])
qed

lemma calibrate_current_unfold:
  assumes "device_state zk = DS_testing \<and> prog_state zk = Some PS_d_cc" "0 \<le> v"
    "fl (v * 1000) < 2 ^ 1024" "level = ''lower'' \<or> level = ''upper''"
  shows "calibrate_current zk v level =
     (case send_request
             (logging [Debug_sending_request calibrate
                (\<lfloor>fl (v * 1000)\<rfloor> div 240 + 240 * (if level = ''lower'' then 2 else 3))
                (\<lfloor>fl (v * 1000)\<rfloor> mod 240 * 240) 0] zk)
             calibrate
             (\<lfloor>fl (v * 1000)\<rfloor> div 240 + 240 * (if level = ''lower'' then 2 else 3))
             (\<lfloor>fl (v * 1000)\<rfloor> mod 240 * 240) 0 of
        (zk1, Inl e) \<Rightarrow> (zk1, Inl e)
      | (zk1, Inr _) \<Rightarrow> (zk1, reset_input_buffer zk1))"
proof -
  have nn: "\<not> v < 0" using assms(2) by simp
  show ?thesis
    using assms(1,4) nn
    by (auto simp add: calibrate_current_def Let_def product_int(1)[OF assms(2,3)])
qed

lemma calibrate_send_logged:
  "\<exists>ys. logged (fst (case send_request (logging [r] zk) calibrate p1 p2 p3 of
             (zk1, Inl e) \<Rightarrow> (zk1, Inl e)
           | (zk1, Inr _) \<Rightarrow> (zk1, reset_input_buffer zk1))) = logged zk @ r # ys"
proof -
  from send_request_logged[of "logging [r] zk" calibrate p1 p2 p3] obtain ys where
    "logged (fst (send_request (logging [r] zk) calibrate p1 p2 p3)) = logged (logging [r] zk) @ ys"
    by blast
  then show ?thesis
    by (auto simp add: logging_def split: prod.splits sum.splits)
qed

lemma calibrate_send_written:
  assumes "is_open zk" "0 \<le> p1" "p1 \<le> 57600" "0 \<le> p2" "p2 \<le> 57600"
  shows "(case send_request (logging [r] zk) calibrate p1 p2 0 of
             (zk1, Inl e) \<Rightarrow> (zk1, Inl e)
           | (zk1, Inr _) \<Rightarrow> (zk1, reset_input_buffer zk1)) =
         (logging [r, Debug_sent_request, Debug_sent_buffer (request_frame calibrate p1 p2 0)]
            (zk\<lparr>written := written zk @ [request_frame calibrate p1 p2 0]\<rparr>), Inr ())"
proof -
  have o: "is_open (logging [r] zk)" using assms(1) by (simp add: logging_def)
  show ?thesis
    unfolding send_request_ok[OF o assms(2-5), of 0 calibrate, simplified]
    using assms(1) by (simp add: reset_input_buffer_def logging_def)
qed

lemma calibrate_voltage_logged:
  assumes "device_state zk = DS_monitoring" "0 \<le> v" "fl (v * 1000) < 2 ^ 1024"
    "level = ''lower'' \<or> level = ''upper''"
  shows "\<exists>ys. logged (fst (calibrate_voltage zk v level)) =
           logged zk @
           Debug_sending_request calibrate
             (\<lfloor>fl (v * 1000)\<rfloor> div 240 + 240 * (if level = ''lower'' then 0 else 1))
             (\<lfloor>fl (v * 1000)\<rfloor> mod 240 * 240) 0 # ys"
  unfolding calibrate_voltage_unfold[OF assms] by (rule calibrate_send_logged)

lemma calibrate_voltage_sent:
  assumes "device_state zk = DS_monitoring" "0 \<le> v" "fl (v * 1000) < 2 ^ 1024"
    "level = ''lower'' \<or> level = ''upper''" "is_open zk"
    "\<lfloor>fl (v * 1000)\<rfloor> div 240 + 240 * (if level = ''lower'' then 0 else 1) \<le> 57600"
  shows "written (fst (calibrate_voltage zk v level)) =
           written zk @ [request_frame calibrate
             (\<lfloor>fl (v * 1000)\<rfloor> div 240 + 240 * (if level = ''lower'' then 0 else 1))
             (\<lfloor>fl (v * 1000)\<rfloor> mod 240 * 240) 0] \<and>
         snd (calibrate_voltage zk v level) = Inr ()"
proof -
  have p1: "0 \<le> \<lfloor>fl (v * 1000)\<rfloor> div 240 + 240 * (if level = ''lower'' then 0 else 1)"
    using product_int(2)[OF assms(2,3)] by (simp add: pos_imp_zdiv_nonneg_iff)
  show ?thesis
    unfolding calibrate_voltage_unfold[OF assms(1-4)]
      calibrate_send_written[OF assms(5) p1 assms(6)
        conjunct1[OF calibrate_p2_range] conjunct2[OF calibrate_p2_range]]
    by (simp add: logging_def)
qed

lemma calibrate_current_logged:
  assumes "device_state zk = DS_testing \<and> prog_state zk = Some PS_d_cc" "0 \<le> v" "fl (v * 1000) < 2 ^ 1024"
    "level = ''lower'' \<or> level = ''upper''"
  shows "\<exists>ys. logged (fst (calibrate_current zk v level)) =
           logged zk @
           Debug_sending_request calibrate
             (\<lfloor>fl (v * 1000)\<rfloor> div 240 + 240 * (if level = ''lower'' then 2 else 3))
             (\<lfloor>fl (v * 1000)\<rfloor> mod 240 * 240) 0 # ys"
  unfolding calibrate_current_unfold[OF assms] by (rule calibrate_send_logged)

lemma calibrate_current_sent:
  assumes "device_state zk = DS_testing \<and> prog_state zk = Some PS_d_cc" "0 \<le> v" "fl (v * 1000) < 2 ^ 1024"
    "level = ''lower'' \<or> level = ''upper''" "is_open zk"
    "\<lfloor>fl (v * 1000)\<rfloor> div 240 + 240 * (if level = ''lower'' then 2 else 3) \<le> 57600"
  shows "written (fst (calibrate_current zk v level)) =
           written zk @ [request_frame calibrate
             (\<lfloor>fl (v * 1000)\<rfloor> div 240 + 240 * (if level = ''lower'' then 2 else 3))
             (\<lfloor>fl (v * 1000)\<rfloor> mod 240 * 240) 0] \<and>
         snd (calibrate_current zk v level) = Inr ()"
proof -
  have p1: "0 \<le> \<lfloor>fl (v * 1000)\<rfloor> div 240 + 240 * (if level = ''lower'' then 2 else 3)"
    using product_int(2)[OF assms(2,3)] by (simp add: pos_imp_zdiv_nonneg_iff)
  show ?thesis
    unfolding calibrate_current_unfold[OF assms(1-4)]
      calibrate_send_written[OF assms(5) p1 assms(6)
        conjunct1[OF calibrate_p2_range] conjunct2[OF calibrate_p2_range]]
    by (simp add: logging_def)
qed

text \<open>
  Claim C8, as the code has it. For a double v \<ge> 0 whose product with 1000 is finite and a
  level lower or upper, with raw = int(v * 1000), the integer part of the float product,
  a calibration in the required state (voltage: monitoring; current: testing with
  program d_cc) hands to \<open>send_request\<close> the parameters p1 = raw div 240 + 240 * offset,
  p2 = (raw mod 240) * 240, p3 = 0, the offset being 0 (voltage, lower), 1 (voltage,
  upper), 2 (current, lower), 3 (current, upper); on an open port, when p1 is at most
  57600, the frame of these parameters is written and nothing is raised.
\<close>

theorem calibrate_request_params:
  assumes "is_double v" "0 \<le> v" "fl (v * 1000) < 2 ^ 1024"
    "level = ''lower'' \<or> level = ''upper''"
  shows "(device_state zk = DS_monitoring \<longrightarrow>
            (\<exists>ys. logged (fst (calibrate_voltage zk v level)) =
               logged zk @
               Debug_sending_request calibrate
                 (\<lfloor>fl (v * 1000)\<rfloor> div 240 + 240 * (if level = ''lower'' then 0 else 1))
                 (\<lfloor>fl (v * 1000)\<rfloor> mod 240 * 240) 0 # ys) \<and>
            (is_open zk \<and>
             \<lfloor>fl (v * 1000)\<rfloor> div 240 + 240 * (if level = ''lower'' then 0 else 1) \<le> 57600 \<longrightarrow>
               written (fst (calibrate_voltage zk v level)) =
                 written zk @ [request_frame calibrate
                   (\<lfloor>fl (v * 1000)\<rfloor> div 240 + 240 * (if level = ''lower'' then 0 else 1))
                   (\<lfloor>fl (v * 1000)\<rfloor> mod 240 * 240) 0] \<and>
               snd (calibrate_voltage zk v level) = Inr ())) \<and>
         (device_state zk = DS_testing \<and> prog_state zk = Some PS_d_cc \<longrightarrow>
            (\<exists>ys. logged (fst (calibrate_current zk v level)) =
               logged zk @
               Debug_sending_request calibrate
                 (\<lfloor>fl (v * 1000)\<rfloor> div 240 + 240 * (if level = ''lower'' then 2 else 3))
                 (\<lfloor>fl (v * 1000)\<rfloor> mod 240 * 240) 0 # ys) \<and>
            (is_open zk \<and>
             \<lfloor>fl (v * 1000)\<rfloor> div 240 + 240 * (if level = ''lower'' then 2 else 3) \<le> 57600 \<longrightarrow>
               written (fst (calibrate_current zk v level)) =
                 written zk @ [request_frame calibrate
                   (\<lfloor>fl (v * 1000)\<rfloor> div 240 + 240 * (if level = ''lower'' then 2 else 3))
                   (\<lfloor>fl (v * 1000)\<rfloor> mod 240 * 240) 0] \<and>
               snd (calibrate_current zk v level) = Inr ()))"
proof -
  note h = assms(2,3,4)
  have a: "\<exists>ys. logged (fst (calibrate_voltage zk v level)) =
               logged zk @
               Debug_sending_request calibrate
                 (\<lfloor>fl (v * 1000)\<rfloor> div 240 + 240 * (if level = ''lower'' then 0 else 1))
                 (\<lfloor>fl (v * 1000)\<rfloor> mod 240 * 240) 0 # ys"
    if "device_state zk = DS_monitoring"
    using calibrate_voltage_logged[OF that h] .
  have b: "written (fst (calibrate_voltage zk v level)) =
                 written zk @ [request_frame calibrate
                   (\<lfloor>fl (v * 1000)\<rfloor> div 240 + 240 * (if level = ''lower'' then 0 else 1))
                   (\<lfloor>fl (v * 1000)\<rfloor> mod 240 * 240) 0] \<and>
               snd (calibrate_voltage zk v level) = Inr ()"
    if "device_state zk = DS_monitoring" "is_open zk"
      "\<lfloor>fl (v * 1000)\<rfloor> div 240 + 240 * (if level = ''lower'' then 0 else 1) \<le> 57600"
    using calibrate_voltage_sent[OF that(1) h that(2,3)] .
  have c: "\<exists>ys. logged (fst (calibrate_current zk v level)) =
               logged zk @
               Debug_sending_request calibrate
                 (\<lfloor>fl (v * 1000)\<rfloor> div 240 + 240 * (if level = ''lower'' then 2 else 3))
                 (\<lfloor>fl (v * 1000)\<rfloor> mod 240 * 240) 0 # ys"
    if "device_state zk = DS_testing \<and> prog_state zk = Some PS_d_cc"
    using calibrate_current_logged[OF that h] .
  have d: "written (fst (calibrate_current zk v level)) =
                 written zk @ [request_frame calibrate
                   (\<lfloor>fl (v * 1000)\<rfloor> div 240 + 240 * (if level = ''lower'' then 2 else 3))
                   (\<lfloor>fl (v * 1000)\<rfloor> mod 240 * 240) 0] \<and>
               snd (calibrate_current zk v level) = Inr ()"
    if "device_state zk = DS_testing \<and> prog_state zk = Some PS_d_cc" "is_open zk"
      "\<lfloor>fl (v * 1000)\<rfloor> div 240 + 240 * (if level = ''lower'' then 2 else 3) \<le> 57600"
    using calibrate_current_sent[OF that(1) h that(2,3)] .
  show ?thesis using a b c d by blast
qed

lemma double_1: "is_double 1"
  unfolding is_double_def by code_simp

lemma raw_1: "fl 1000 < 2 ^ 1024 \<and> \<lfloor>fl 1000\<rfloor> = 1000"
  by code_simp

lemma double_402: "is_double (fl (201 / 50))"
  unfolding is_double_def by code_simp

lemma nonneg_402: "0 \<le> fl (201 / 50)"
  by code_simp

lemma raw_402: "fl (fl (201 / 50) * 1000) < 2 ^ 1024 \<and> \<lfloor>fl (fl (201 / 50) * 1000)\<rfloor> = 4019"
  by code_simp

theorem calibrate_request_params_witness:
  "logged (fst (calibrate_voltage
      \<lparr>is_open = True, device_state = DS_monitoring, prog_state = Some PS_d_cc,
       part_number = Some ebc_a05, written = [], logged = []\<rparr> 1 ''lower'')) ! 0 =
     Debug_sending_request calibrate 4 9600 0 \<and>
   written (fst (calibrate_voltage
      \<lparr>is_open = True, device_state = DS_monitoring, prog_state = Some PS_d_cc,
       part_number = Some ebc_a05, written = [], logged = []\<rparr> 1 ''lower'')) =
     [[250, 4, 0, 4, 40, 0, 0, 0, 40, 248]] \<and>
   logged (fst (calibrate_voltage
      \<lparr>is_open = True, device_state = DS_monitoring, prog_state = Some PS_d_cc,
       part_number = Some ebc_a05, written = [], logged = []\<rparr> (fl (402 / 100)) ''lower'')) ! 0 =
     Debug_sending_request calibrate 16 42960 0 \<and>
   logged (fst (calibrate_current
      \<lparr>is_open = True, device_state = DS_testing, prog_state = Some PS_d_cc,
       part_number = Some ebc_a05, written = [], logged = []\<rparr> 1 ''upper'')) ! 0 =
     Debug_sending_request calibrate 724 9600 0"
  using calibrate_request_params [of 1 "''lower''" "\<lparr>is_open = True, device_state = DS_monitoring,
       prog_state = Some PS_d_cc, part_number = Some ebc_a05, written = [], logged = []\<rparr>"]
    calibrate_request_params [of "fl (402 / 100)" "''lower''" "\<lparr>is_open = True,
       device_state = DS_monitoring,
       prog_state = Some PS_d_cc, part_number = Some ebc_a05, written = [], logged = []\<rparr>"]
    calibrate_request_params [of 1 "''upper''" "\<lparr>is_open = True, device_state = DS_testing,
       prog_state = Some PS_d_cc, part_number = Some ebc_a05, written = [], logged = []\<rparr>"]
    double_1 raw_1 double_402 nonneg_402 raw_402
  by auto

text \<open>
  The claim as stated fails where rounding and truncation differ: at 0.0006 V the code
  sends p2 = 0 (the product is the double 0.6, raw = 0), and the specification's formula
  gives p2 = 240 (raw = 1).
\<close>

lemma nonneg_06: "0 \<le> fl (3 / 5000)"
  by code_simp

lemma raw_06: "fl (fl (3 / 5000) * 1000) < 2 ^ 1024 \<and> \<lfloor>fl (fl (3 / 5000) * 1000)\<rfloor> = 0"
  by code_simp

lemma round_06: "round (fl (3 / 5000) * 1000) = 1"
  by code_simp

theorem calibrate_request_params_counterexample:
  "logged (fst (calibrate_voltage
      \<lparr>is_open = True, device_state = DS_monitoring, prog_state = Some PS_d_cc,
       part_number = Some ebc_a05, written = [], logged = []\<rparr> (fl (3 / 5000)) ''lower'')) ! 0 =
     Debug_sending_request calibrate 0 0 0 \<and>
   spec_calibration_params (fl (3 / 5000)) 0 = (0, 240, 0)"
  using calibrate_voltage_logged [of "\<lparr>is_open = True, device_state = DS_monitoring,
       prog_state = Some PS_d_cc, part_number = Some ebc_a05, written = [], logged = []\<rparr>"
       "fl (3 / 5000)" "''lower''"] nonneg_06 raw_06 round_06
  by (auto simp add: spec_calibration_params_def)

section \<open>The checksum under a changed payload byte\<close>

lemma enum16:
  "0 \<le> (x::int) \<Longrightarrow> x < 16 \<Longrightarrow>
     x = 0 \<or> x = 1 \<or> x = 2 \<or> x = 3 \<or> x = 4 \<or> x = 5 \<or> x = 6 \<or> x = 7 \<or>
     x = 8 \<or> x = 9 \<or> x = 10 \<or> x = 11 \<or> x = 12 \<or> x = 13 \<or> x = 14 \<or> x = 15"
  by presburger

lemma xor_low_240:
  assumes "0 \<le> x" "x < 16"
  shows "x XOR (x + 240) = (240::int)"
  using enum16[OF assms] by (elim disjE) simp_all

lemma mod240_gap:
  assumes "0 \<le> x" "y < 256" "x mod 240 = y mod 240" "x < (y::int)"
  shows "y = x + 240"
proof -
  have "240 dvd y - x" using assms(3)[symmetric] by (simp add: mod_eq_dvd_iff)
  then obtain k where k: "y - x = 240 * k" by (elim dvdE)
  have "0 < k" "k < 2" using k assms by linarith+
  then have "k = 1" by linarith
  with k show ?thesis by simp
qed

lemma checksum_collision:
  assumes "0 \<le> x" "x < 256" "0 \<le> y" "y < 256" "x mod 240 = y mod 240" "x < (y::int)"
  shows "x XOR y = 240"
proof -
  have y: "y = x + 240" using mod240_gap[OF assms(1,4,5,6)] .
  then have "x < 16" using assms(4) by simp
  then show ?thesis using xor_low_240[OF assms(1)] y by simp
qed

lemma checksum_distinct:
  assumes "0 \<le> x" "x < 256" "0 \<le> y" "y < 256" "\<not> x = y" "\<not> x XOR y = (240::int)"
  shows "\<not> x mod 240 = y mod 240"
proof
  assume e: "x mod 240 = y mod 240"
  show False
  proof (cases "x < y")
    case True
    from checksum_collision[OF assms(1-4) e True] assms(6) show False by simp
  next
    case False
    with assms(5) have "y < x" by simp
    from checksum_collision[OF assms(3,4,1,2) e[symmetric] this] assms(6)
    show False by (simp add: xor.commute)
  qed
qed

lemma foldl_xor_init: "foldl (XOR) (a::int) xs = a XOR foldl (XOR) 0 xs"
proof (induction xs arbitrary: a)
  case Nil
  show ?case by simp
next
  case (Cons x xs)
  show ?case using Cons[of "a XOR x"] Cons[of x] by (simp add: xor.assoc)
qed

lemma foldl_xor_update:
  "i < length xs \<Longrightarrow>
     foldl (XOR) (0::int) (xs[i := v]) = foldl (XOR) 0 xs XOR (xs ! i) XOR v"
proof (induction xs arbitrary: i)
  case Nil
  then show ?case by simp
next
  case (Cons x xs)
  show ?case
  proof (cases i)
    case 0
    show ?thesis
      using foldl_xor_init[of x xs] foldl_xor_init[of v xs]
      by (simp add: 0 xor.assoc xor.commute xor.left_commute)
  next
    case (Suc j)
    with Cons.prems have j: "j < length xs" by simp
    show ?thesis
      using Cons.IH[OF j] foldl_xor_init[of x xs] foldl_xor_init[of x "xs[j := v]"]
      by (simp add: Suc xor.assoc)
  qed
qed

lemma foldl_xor_byte:
  "list_all (\<lambda>b. 0 \<le> b \<and> b \<le> 255) xs \<Longrightarrow> 0 \<le> a \<Longrightarrow> a < 256 \<Longrightarrow>
     0 \<le> foldl (XOR) (a::int) xs \<and> foldl (XOR) a xs < 256"
proof (induction xs arbitrary: a)
  case Nil
  then show ?case by simp
next
  case (Cons x xs)
  have "0 \<le> a XOR x" using Cons.prems by simp
  moreover have "a XOR x < 2 ^ 8"
    using Cons.prems by (intro XOR_upper) simp_all
  ultimately show ?case using Cons.IH[of "a XOR x"] Cons.prems by simp
qed

lemma checksum_nonempty:
  "\<not> xs = [] \<Longrightarrow> zketech_checksum xs = Inr (foldl (XOR) 0 xs mod 240)"
  using foldl_xor_init[of "hd xs" "tl xs"]
  by (cases xs) (simp_all add: zketech_checksum_def)

lemma payload_update:
  assumes "1 \<le> i" "i < length buff - 2"
  shows "payload (buff[i := v]) = (payload buff)[i - 1 := v]"
    and "payload buff ! (i - 1) = buff ! i"
    and "i - 1 < length (payload buff)"
  using assms by (simp_all add: payload_def drop_update_swap take_update_swap)


lemma xor_cancel: "(x XOR b XOR v) XOR x = (b XOR v :: int)"
proof -
  have "(x XOR b XOR v) XOR x = (x XOR x) XOR (b XOR v)"
    by (simp only: xor.assoc xor.commute xor.left_commute)
  then show ?thesis by simp
qed

lemma xor_eq_zero: "(b XOR v = (0::int)) = (b = v)"
proof
  assume "b XOR v = 0"
  then have "(b XOR v) XOR v = v" by simp
  then show "b = v" by (simp add: xor.assoc)
next
  assume "b = v"
  then show "b XOR v = 0" by simp
qed

lemma payload_bytes:
  "list_all (\<lambda>b. 0 \<le> b \<and> b \<le> 255) buff \<Longrightarrow> list_all (\<lambda>b. 0 \<le> b \<and> b \<le> (255::int)) (payload buff)"
  unfolding payload_def list_all_iff
  by (metis in_set_takeD in_set_dropD)

lemma checksum_distinct_mid:
  assumes "0 \<le> x" "x < 256" "0 \<le> y" "y < 256" "\<not> x = y" "16 \<le> y" "y < (240::int)"
  shows "\<not> x mod 240 = y mod 240"
proof
  assume e: "x mod 240 = y mod 240"
  show False
  proof (cases "x < y")
    case True
    from mod240_gap[OF assms(1,4) e True] assms(1,7) show False by simp
  next
    case False
    with assms(5) have "y < x" by simp
    from mod240_gap[OF assms(3,2) e[symmetric] this] assms(2,6) show False by simp
  qed
qed

lemma xor_240_low:
  assumes "0 \<le> x" "x < 16"
  shows "x XOR 240 = x + (240::int)"
proof -
  have "x XOR (x XOR (x + 240)) = x XOR 240" using xor_low_240[OF assms] by simp
  moreover have "x XOR (x XOR (x + 240)) = x + 240"
    by (simp add: xor.assoc[symmetric])
  ultimately show ?thesis by simp
qed

lemma checksum_same:
  assumes "0 \<le> x" "x < 256" "x < 16 \<or> 240 \<le> (x::int)"
  shows "(x XOR 240) mod 240 = x mod 240"
proof (cases "x < 16")
  case True
  then show ?thesis using xor_240_low[OF assms(1) True] by simp
next
  case False
  with assms(3) have h: "240 \<le> x" by simp
  let ?k = "x - 240"
  have k: "0 \<le> ?k" "?k < 16" using h assms(2) by simp_all
  have "?k XOR 240 = x" using xor_240_low[OF k] by simp
  then have "x XOR 240 = (?k XOR 240) XOR 240" by simp
  also have "\<dots> = ?k" by (simp add: xor.assoc)
  finally have "x XOR 240 = ?k" .
  then show ?thesis by simp
qed

lemma flipped_byte_defect:
  assumes valid: "check_buffer_validity buff"
    and bytes: "list_all (\<lambda>b. 0 \<le> b \<and> b \<le> 255) buff"
    and i: "1 \<le> i" "i < length buff - 2"
    and v: "0 \<le> v" "v \<le> 255" "\<not> v = buff ! i"
  shows "(buffer_defect (buff[i := v]) = Some Bad_checksum) =
         (\<not> (buff ! i XOR v = 240 \<and>
             (foldl (XOR) 0 (payload buff) < 16 \<or> 240 \<le> foldl (XOR) 0 (payload buff))))"
proof -
  let ?n = "length buff"
  let ?X = "foldl (XOR) 0 (payload buff)"
  let ?X' = "foldl (XOR) 0 (payload (buff[i := v]))"
  have n: "?n = 10 \<or> ?n = 19"
    and b0: "buff ! 0 = BEGIN_MARKER"
    and bl: "buff ! (?n - 1) = END_MARKER"
    and ck: "Inr (buff ! (?n - 2)) = zketech_checksum (payload buff)"
    using valid
    by (auto simp add: check_buffer_validity_def buffer_defect_def Let_def split: if_splits)
  have ne: "\<not> payload buff = []" "\<not> payload (buff[i := v]) = []"
    using n by (auto simp add: payload_def)
  have ckX: "buff ! (?n - 2) = ?X mod 240"
    using ck checksum_nonempty[OF ne(1)] by simp
  have X': "?X' = ?X XOR buff ! i XOR v"
    using payload_update(1)[OF i, of v] payload_update(2,3)[OF i]
      foldl_xor_update[of "i - 1" "payload buff" v]
    by simp
  have rX: "0 \<le> ?X \<and> ?X < 256"
    using foldl_xor_byte[OF payload_bytes[OF bytes], of 0] by simp
  have bytes': "list_all (\<lambda>b. 0 \<le> b \<and> b \<le> 255) (buff[i := v])"
    unfolding list_all_iff
    using bytes[unfolded list_all_iff] v(1,2) set_update_subset_insert[of buff i v] by auto
  have rX': "0 \<le> ?X' \<and> ?X' < 256"
    using foldl_xor_byte[OF payload_bytes[OF bytes'], of 0] by simp
  have dd: "?X' XOR ?X = buff ! i XOR v"
    unfolding X' by (rule xor_cancel)
  have neq: "\<not> ?X' = ?X"
  proof
    assume "?X' = ?X"
    then have "buff ! i XOR v = 0" using dd by simp
    then show False using v(3) by (simp add: xor_eq_zero)
  qed
  have same: "(buff[i := v]) ! 0 = buff ! 0" "(buff[i := v]) ! (?n - 1) = buff ! (?n - 1)"
    "(buff[i := v]) ! (?n - 2) = buff ! (?n - 2)"
    using i by simp_all
  have defect: "(buffer_defect (buff[i := v]) = Some Bad_checksum) =
                (\<not> ?X' mod 240 = ?X mod 240)"
    using n b0 bl same ckX checksum_nonempty[OF ne(2)]
    by (auto simp add: buffer_defect_def Let_def)
  have "(\<not> ?X' mod 240 = ?X mod 240) =
        (\<not> (buff ! i XOR v = 240 \<and> (?X < 16 \<or> 240 \<le> ?X)))"
  proof (cases "buff ! i XOR v = 240 \<and> (?X < 16 \<or> 240 \<le> ?X)")
    case True
    then have "?X' = ?X XOR 240" unfolding X' by (simp add: xor.assoc)
    then have "?X' mod 240 = ?X mod 240"
      using checksum_same[of ?X] rX True by simp
    with True show ?thesis by simp
  next
    case False
    have "\<not> ?X' mod 240 = ?X mod 240"
    proof (cases "buff ! i XOR v = 240")
      case d: True
      with False have "16 \<le> ?X" "?X < 240" by simp_all
      then show ?thesis
        using checksum_distinct_mid[of ?X' ?X] rX rX' neq by simp
    next
      case d: False
      then show ?thesis
        using checksum_distinct[of ?X' ?X] rX rX' neq dd by simp
    qed
    with False show ?thesis by simp
  qed
  with defect show ?thesis by simp
qed

text \<open>
  Claim C5, as the code has it. In a buffer of bytes that passes the validity check, a
  byte strictly between the markers other than the checksum byte is replaced by a
  different byte. The check of the changed buffer fails at the checksum, and decoding
  returns \<open>None\<close>, except in one case: the old and the new byte differ by exactly the bit
  pattern 240 (their XOR is 240) and the XOR of the payload of the original buffer is
  below 16 or at least 240. In that case the checksum still matches.
\<close>

theorem payload_byte_flip:
  assumes "check_buffer_validity buff"
    and "list_all (\<lambda>b. 0 \<le> b \<and> b \<le> 255) buff"
    and "1 \<le> i" "i < length buff - 2"
    and "0 \<le> v" "v \<le> 255" "\<not> v = buff ! i"
  shows "(\<not> (buff ! i XOR v = 240 \<and>
             (foldl (XOR) 0 (payload buff) < 16 \<or> 240 \<le> foldl (XOR) 0 (payload buff))) \<longrightarrow>
            buffer_defect (buff[i := v]) = Some Bad_checksum \<and>
            \<not> check_buffer_validity (buff[i := v]) \<and>
            get_response_data_set (buff[i := v]) = Inr None) \<and>
         (buff ! i XOR v = 240 \<and>
             (foldl (XOR) 0 (payload buff) < 16 \<or> 240 \<le> foldl (XOR) 0 (payload buff)) \<longrightarrow>
            \<not> buffer_defect (buff[i := v]) = Some Bad_checksum)"
  using flipped_byte_defect[OF assms]
  by (auto simp add: check_buffer_validity_def get_response_data_set_def)

lemma frame_d_valid:
  "check_buffer_validity [250, 10, 0, 0, 0, 0, 0, 0, 0, 0, 0, 0, 0, 0, 0, 0, 5, 15, 248]"
  by (simp add: check_buffer_validity_def buffer_defect_def payload_def zketech_checksum_def
      BEGIN_MARKER_def END_MARKER_def StateCode_of_def ProgCode_of_def PartNumber_of_def)

theorem payload_byte_flip_witness:
  "buffer_defect [250, 0, 0, 0, 0, 0, 3, 20, 0, 0, 0, 0, 0, 0, 0, 0, 5, 19, 248] =
     Some Bad_checksum \<and>
   get_response_data_set [250, 0, 0, 0, 0, 0, 3, 20, 0, 0, 0, 0, 0, 0, 0, 0, 5, 19, 248] =
     Inr None \<and>
   buffer_defect [250, 0, 240, 0, 0, 0, 2, 20, 0, 0, 0, 0, 0, 0, 0, 0, 5, 19, 248] =
     Some Bad_checksum \<and>
   \<not> buffer_defect [250, 10, 240, 0, 0, 0, 0, 0, 0, 0, 0, 0, 0, 0, 0, 0, 5, 15, 248] =
     Some Bad_checksum"
  using payload_byte_flip [of "[250, 0, 0, 0, 0, 0, 2, 20, 0, 0, 0, 0, 0, 0, 0, 0, 5, 19, 248]"
      6 3]
    payload_byte_flip [of "[250, 0, 0, 0, 0, 0, 2, 20, 0, 0, 0, 0, 0, 0, 0, 0, 5, 19, 248]"
      2 240]
    payload_byte_flip [of "[250, 10, 0, 0, 0, 0, 0, 0, 0, 0, 0, 0, 0, 0, 0, 0, 5, 15, 248]"
      2 240]
    frame_b_valid frame_d_valid
  by (simp add: payload_def)

text \<open>
  The claim as stated fails, since the XOR of the payload is reduced modulo 240: a valid
  response whose payload XOR is 15 stays valid when its third byte changes from 0 to 240
  (the XOR becomes 255, and both are 15 modulo 240).
\<close>

theorem payload_byte_flip_counterexample:
  "check_buffer_validity [250, 10, 0, 0, 0, 0, 0, 0, 0, 0, 0, 0, 0, 0, 0, 0, 5, 15, 248] \<and>
   \<not> (240::int) = [250, 10, 0, 0, 0, 0, 0, 0, 0, 0, 0, 0, 0, 0, 0, 0, 5, 15, 248] ! 2 \<and>
   buffer_defect ([250, 10, 0, 0, 0, 0, 0, 0, 0, 0, 0, 0, 0, 0, 0, 0, 5, 15, 248][2 := 240]) =
     None"
  by (simp add: check_buffer_validity_def buffer_defect_def payload_def zketech_checksum_def
      BEGIN_MARKER_def END_MARKER_def StateCode_of_def ProgCode_of_def PartNumber_of_def)

end
